theory Spec2Isabelle
  imports Complex_Main "HOL-Library.AList"
begin

unbundle bit_operations_syntax

section \<open>Python values, exceptions and dictionaries\<close>

text \<open>
  The values that travel through \<^verbatim>\<open>fan.py\<close>: plain Python scalars, and members of the
  vendor library's enumerations (\<^verbatim>\<open>isinstance(value, Enum)\<close>), which carry a name and an
  underlying scalar \<^verbatim>\<open>.value\<close>.
\<close>

datatype scalar = PyNone | PyBool bool | PyInt int | PyFloat real | PyStr string

datatype pyval = Plain scalar | EnumMember string scalar

text \<open>What a vendor command returns: a list of scalars such as \<^verbatim>\<open>["ok"]\<close>, or one scalar.\<close>

datatype pyresult = ResultList "scalar list" | ResultValue scalar

datatype exn =
    KeyError string
  | ValueError
  | AttributeError string
  | Invalid

datatype 'a res = Return 'a | Raise exn

text \<open>
  A Python \<^verbatim>\<open>dict\<close> as an association list in insertion order: storing under a key that
  is present replaces the value in place, a new key goes to the end.
\<close>

definition dict_literal :: "('k \<times> 'v) list \<Rightarrow> ('k \<times> 'v) list" where
  "dict_literal items = fold (\<lambda>(k, v). AList.update k v) items []"

definition dict_update :: "('k \<times> 'v) list \<Rightarrow> ('k \<times> 'v) list \<Rightarrow> ('k \<times> 'v) list" where
  "dict_update d new = fold (\<lambda>(k, v). AList.update k v) new d"

section \<open>Names imported from outside the source files\<close>

text \<open>
  \<^verbatim>\<open>fan.py\<close> imports its model names, the two lists of MiOT models, the speed names and
  two attribute names from modules that are not among the sources, and the enumerations of
  operation modes and led brightness from the vendor library. Their values are parameters
  of the model.
\<close>

datatype mode_enum =
    AirfreshOperationMode
  | AirhumidifierOperationMode
  | AirhumidifierMiotOperationMode
  | AirpurifierOperationMode
  | AirpurifierMiotOperationMode

datatype led_enum =
    AirfreshLedBrightness
  | AirhumidifierLedBrightness
  | AirhumidifierMiotLedBrightness
  | AirpurifierLedBrightness
  | AirpurifierMiotLedBrightness

record imported =
  MODEL_AIRHUMIDIFIER_CA1 :: string
  MODEL_AIRHUMIDIFIER_CA4 :: string
  MODEL_AIRHUMIDIFIER_CB1 :: string
  MODEL_AIRPURIFIER_2S :: string
  MODEL_AIRPURIFIER_3 :: string
  MODEL_AIRPURIFIER_3C :: string
  MODEL_AIRPURIFIER_3H :: string
  MODEL_AIRPURIFIER_PRO :: string
  MODEL_AIRPURIFIER_PRO_V7 :: string
  MODEL_AIRPURIFIER_V3 :: string
  MODELS_HUMIDIFIER_MIOT :: "string list"
  MODELS_PURIFIER_MIOT :: "string list"
  SPEED_LOW :: string
  SPEED_MEDIUM :: string
  SPEED_HIGH :: string
  SUPPORT_SET_SPEED :: int
  ATTR_MODE :: string
  ATTR_TEMPERATURE :: string
  positive_int :: "int \<Rightarrow> int option"
  member_names :: "mode_enum \<Rightarrow> string list"
  member_values :: "led_enum \<Rightarrow> int list"

section \<open>Constants of fan.py\<close>

abbreviation (input) "ATTR_MODEL \<equiv> ''model''"

abbreviation (input) "ATTR_HUMIDITY \<equiv> ''humidity''"
abbreviation (input) "ATTR_AIR_QUALITY_INDEX \<equiv> ''aqi''"
abbreviation (input) "ATTR_FILTER_HOURS_USED \<equiv> ''filter_hours_used''"
abbreviation (input) "ATTR_FILTER_LIFE \<equiv> ''filter_life_remaining''"
abbreviation (input) "ATTR_FAVORITE_LEVEL \<equiv> ''favorite_level''"
abbreviation (input) "ATTR_BUZZER \<equiv> ''buzzer''"
abbreviation (input) "ATTR_CHILD_LOCK \<equiv> ''child_lock''"
abbreviation (input) "ATTR_LED \<equiv> ''led''"
abbreviation (input) "ATTR_LED_BRIGHTNESS \<equiv> ''led_brightness''"
abbreviation (input) "ATTR_MOTOR_SPEED \<equiv> ''motor_speed''"
abbreviation (input) "ATTR_AVERAGE_AIR_QUALITY_INDEX \<equiv> ''average_aqi''"
abbreviation (input) "ATTR_PURIFY_VOLUME \<equiv> ''purify_volume''"
abbreviation (input) "ATTR_BRIGHTNESS \<equiv> ''brightness''"
abbreviation (input) "ATTR_LEVEL \<equiv> ''level''"
abbreviation (input) "ATTR_FAN_LEVEL \<equiv> ''fan_level''"
abbreviation (input) "ATTR_MOTOR2_SPEED \<equiv> ''motor2_speed''"
abbreviation (input) "ATTR_ILLUMINANCE \<equiv> ''illuminance''"
abbreviation (input) "ATTR_FILTER_RFID_PRODUCT_ID \<equiv> ''filter_rfid_product_id''"
abbreviation (input) "ATTR_FILTER_RFID_TAG \<equiv> ''filter_rfid_tag''"
abbreviation (input) "ATTR_FILTER_TYPE \<equiv> ''filter_type''"
abbreviation (input) "ATTR_LEARN_MODE \<equiv> ''learn_mode''"
abbreviation (input) "ATTR_SLEEP_TIME \<equiv> ''sleep_time''"
abbreviation (input) "ATTR_SLEEP_LEARN_COUNT \<equiv> ''sleep_mode_learn_count''"
abbreviation (input) "ATTR_EXTRA_FEATURES \<equiv> ''extra_features''"
abbreviation (input) "ATTR_FEATURES \<equiv> ''features''"
abbreviation (input) "ATTR_TURBO_MODE_SUPPORTED \<equiv> ''turbo_mode_supported''"
abbreviation (input) "ATTR_AUTO_DETECT \<equiv> ''auto_detect''"
abbreviation (input) "ATTR_SLEEP_MODE \<equiv> ''sleep_mode''"
abbreviation (input) "ATTR_VOLUME \<equiv> ''volume''"
abbreviation (input) "ATTR_USE_TIME \<equiv> ''use_time''"
abbreviation (input) "ATTR_BUTTON_PRESSED \<equiv> ''button_pressed''"
abbreviation (input) "ATTR_TARGET_HUMIDITY \<equiv> ''target_humidity''"
abbreviation (input) "ATTR_TRANS_LEVEL \<equiv> ''trans_level''"
abbreviation (input) "ATTR_HARDWARE_VERSION \<equiv> ''hardware_version''"
abbreviation (input) "ATTR_DEPTH \<equiv> ''depth''"
abbreviation (input) "ATTR_DRY \<equiv> ''dry''"
abbreviation (input) "ATTR_ACTUAL_MOTOR_SPEED \<equiv> ''actual_speed''"
abbreviation (input) "ATTR_FAHRENHEIT \<equiv> ''fahrenheit''"
abbreviation (input) "ATTR_FAULT \<equiv> ''fault''"
abbreviation (input) "ATTR_CO2 \<equiv> ''co2''"

subsection \<open>Attribute tables: public attribute name to field of the status object\<close>

type_synonym attr_table = "(string \<times> string) list"

definition AIRPURIFIER_COMMON_items :: "imported \<Rightarrow> attr_table" where
  "AIRPURIFIER_COMMON_items c =
    [(ATTR_TEMPERATURE c, ''temperature''),
     (ATTR_HUMIDITY, ''humidity''),
     (ATTR_AIR_QUALITY_INDEX, ''aqi''),
     (ATTR_MODE c, ''mode''),
     (ATTR_FILTER_HOURS_USED, ''filter_hours_used''),
     (ATTR_FILTER_LIFE, ''filter_life_remaining''),
     (ATTR_FAVORITE_LEVEL, ''favorite_level''),
     (ATTR_CHILD_LOCK, ''child_lock''),
     (ATTR_LED, ''led''),
     (ATTR_MOTOR_SPEED, ''motor_speed''),
     (ATTR_AVERAGE_AIR_QUALITY_INDEX, ''average_aqi''),
     (ATTR_LEARN_MODE, ''learn_mode''),
     (ATTR_EXTRA_FEATURES, ''extra_features''),
     (ATTR_TURBO_MODE_SUPPORTED, ''turbo_mode_supported''),
     (ATTR_BUTTON_PRESSED, ''button_pressed'')]"

definition AVAILABLE_ATTRIBUTES_AIRPURIFIER_COMMON :: "imported \<Rightarrow> attr_table" where
  "AVAILABLE_ATTRIBUTES_AIRPURIFIER_COMMON c = dict_literal (AIRPURIFIER_COMMON_items c)"

text \<open>\<^verbatim>\<open>{**COMMON, k: v, ...}\<close> stores the items of the common table first, then the others.\<close>

definition AVAILABLE_ATTRIBUTES_AIRPURIFIER :: "imported \<Rightarrow> attr_table" where
  "AVAILABLE_ATTRIBUTES_AIRPURIFIER c =
    dict_literal (AVAILABLE_ATTRIBUTES_AIRPURIFIER_COMMON c @
      [(ATTR_PURIFY_VOLUME, ''purify_volume''),
       (ATTR_SLEEP_TIME, ''sleep_time''),
       (ATTR_SLEEP_LEARN_COUNT, ''sleep_mode_learn_count''),
       (ATTR_AUTO_DETECT, ''auto_detect''),
       (ATTR_USE_TIME, ''use_time''),
       (ATTR_BUZZER, ''buzzer''),
       (ATTR_LED_BRIGHTNESS, ''led_brightness''),
       (ATTR_SLEEP_MODE, ''sleep_mode'')])"

definition AVAILABLE_ATTRIBUTES_AIRPURIFIER_PRO :: "imported \<Rightarrow> attr_table" where
  "AVAILABLE_ATTRIBUTES_AIRPURIFIER_PRO c =
    dict_literal (AVAILABLE_ATTRIBUTES_AIRPURIFIER_COMMON c @
      [(ATTR_PURIFY_VOLUME, ''purify_volume''),
       (ATTR_USE_TIME, ''use_time''),
       (ATTR_FILTER_RFID_PRODUCT_ID, ''filter_rfid_product_id''),
       (ATTR_FILTER_RFID_TAG, ''filter_rfid_tag''),
       (ATTR_FILTER_TYPE, ''filter_type''),
       (ATTR_ILLUMINANCE, ''illuminance''),
       (ATTR_MOTOR2_SPEED, ''motor2_speed''),
       (ATTR_VOLUME, ''volume''),
       (ATTR_AUTO_DETECT, ''auto_detect''),
       (ATTR_SLEEP_TIME, ''sleep_time''),
       (ATTR_SLEEP_LEARN_COUNT, ''sleep_mode_learn_count'')])"

definition AVAILABLE_ATTRIBUTES_AIRPURIFIER_PRO_V7 :: "imported \<Rightarrow> attr_table" where
  "AVAILABLE_ATTRIBUTES_AIRPURIFIER_PRO_V7 c =
    dict_literal (AVAILABLE_ATTRIBUTES_AIRPURIFIER_COMMON c @
      [(ATTR_FILTER_RFID_PRODUCT_ID, ''filter_rfid_product_id''),
       (ATTR_FILTER_RFID_TAG, ''filter_rfid_tag''),
       (ATTR_FILTER_TYPE, ''filter_type''),
       (ATTR_ILLUMINANCE, ''illuminance''),
       (ATTR_MOTOR2_SPEED, ''motor2_speed''),
       (ATTR_VOLUME, ''volume'')])"

definition AVAILABLE_ATTRIBUTES_AIRPURIFIER_2S :: "imported \<Rightarrow> attr_table" where
  "AVAILABLE_ATTRIBUTES_AIRPURIFIER_2S c =
    dict_literal (AVAILABLE_ATTRIBUTES_AIRPURIFIER_COMMON c @
      [(ATTR_BUZZER, ''buzzer''),
       (ATTR_FILTER_RFID_PRODUCT_ID, ''filter_rfid_product_id''),
       (ATTR_FILTER_RFID_TAG, ''filter_rfid_tag''),
       (ATTR_FILTER_TYPE, ''filter_type''),
       (ATTR_ILLUMINANCE, ''illuminance'')])"

definition AVAILABLE_ATTRIBUTES_AIRPURIFIER_3 :: "imported \<Rightarrow> attr_table" where
  "AVAILABLE_ATTRIBUTES_AIRPURIFIER_3 c =
    dict_literal
      [(ATTR_TEMPERATURE c, ''temperature''),
       (ATTR_HUMIDITY, ''humidity''),
       (ATTR_AIR_QUALITY_INDEX, ''aqi''),
       (ATTR_MODE c, ''mode''),
       (ATTR_FILTER_HOURS_USED, ''filter_hours_used''),
       (ATTR_FILTER_LIFE, ''filter_life_remaining''),
       (ATTR_FAVORITE_LEVEL, ''favorite_level''),
       (ATTR_CHILD_LOCK, ''child_lock''),
       (ATTR_LED, ''led''),
       (ATTR_MOTOR_SPEED, ''motor_speed''),
       (ATTR_AVERAGE_AIR_QUALITY_INDEX, ''average_aqi''),
       (ATTR_PURIFY_VOLUME, ''purify_volume''),
       (ATTR_USE_TIME, ''use_time''),
       (ATTR_BUZZER, ''buzzer''),
       (ATTR_LED_BRIGHTNESS, ''led_brightness''),
       (ATTR_FILTER_RFID_PRODUCT_ID, ''filter_rfid_product_id''),
       (ATTR_FILTER_RFID_TAG, ''filter_rfid_tag''),
       (ATTR_FILTER_TYPE, ''filter_type''),
       (ATTR_FAN_LEVEL, ''fan_level'')]"

definition AVAILABLE_ATTRIBUTES_AIRPURIFIER_3C :: "imported \<Rightarrow> attr_table" where
  "AVAILABLE_ATTRIBUTES_AIRPURIFIER_3C c =
    dict_literal
      [(ATTR_AIR_QUALITY_INDEX, ''aqi''),
       (ATTR_MODE c, ''mode''),
       (ATTR_FILTER_HOURS_USED, ''filter_hours_used''),
       (ATTR_FILTER_LIFE, ''filter_life_remaining''),
       (ATTR_FAVORITE_LEVEL, ''favorite_rpm''),
       (ATTR_CHILD_LOCK, ''child_lock''),
       (ATTR_MOTOR_SPEED, ''motor_speed''),
       (ATTR_BUZZER, ''buzzer''),
       (ATTR_LED_BRIGHTNESS, ''led_brightness_level'')]"

definition AVAILABLE_ATTRIBUTES_AIRPURIFIER_V3 :: "imported \<Rightarrow> attr_table" where
  "AVAILABLE_ATTRIBUTES_AIRPURIFIER_V3 c =
    dict_literal
      [(ATTR_AIR_QUALITY_INDEX, ''aqi''),
       (ATTR_MODE c, ''mode''),
       (ATTR_LED, ''led''),
       (ATTR_BUZZER, ''buzzer''),
       (ATTR_CHILD_LOCK, ''child_lock''),
       (ATTR_ILLUMINANCE, ''illuminance''),
       (ATTR_FILTER_HOURS_USED, ''filter_hours_used''),
       (ATTR_FILTER_LIFE, ''filter_life_remaining''),
       (ATTR_MOTOR_SPEED, ''motor_speed''),
       (ATTR_AVERAGE_AIR_QUALITY_INDEX, ''average_aqi''),
       (ATTR_VOLUME, ''volume''),
       (ATTR_MOTOR2_SPEED, ''motor2_speed''),
       (ATTR_FILTER_RFID_PRODUCT_ID, ''filter_rfid_product_id''),
       (ATTR_FILTER_RFID_TAG, ''filter_rfid_tag''),
       (ATTR_FILTER_TYPE, ''filter_type''),
       (ATTR_PURIFY_VOLUME, ''purify_volume''),
       (ATTR_LEARN_MODE, ''learn_mode''),
       (ATTR_SLEEP_TIME, ''sleep_time''),
       (ATTR_SLEEP_LEARN_COUNT, ''sleep_mode_learn_count''),
       (ATTR_EXTRA_FEATURES, ''extra_features''),
       (ATTR_AUTO_DETECT, ''auto_detect''),
       (ATTR_USE_TIME, ''use_time''),
       (ATTR_BUTTON_PRESSED, ''button_pressed'')]"

definition AVAILABLE_ATTRIBUTES_AIRHUMIDIFIER_COMMON :: "imported \<Rightarrow> attr_table" where
  "AVAILABLE_ATTRIBUTES_AIRHUMIDIFIER_COMMON c =
    dict_literal
      [(ATTR_TEMPERATURE c, ''temperature''),
       (ATTR_HUMIDITY, ''humidity''),
       (ATTR_MODE c, ''mode''),
       (ATTR_BUZZER, ''buzzer''),
       (ATTR_CHILD_LOCK, ''child_lock''),
       (ATTR_TARGET_HUMIDITY, ''target_humidity''),
       (ATTR_LED_BRIGHTNESS, ''led_brightness''),
       (ATTR_USE_TIME, ''use_time'')]"

definition AVAILABLE_ATTRIBUTES_AIRHUMIDIFIER :: "imported \<Rightarrow> attr_table" where
  "AVAILABLE_ATTRIBUTES_AIRHUMIDIFIER c =
    dict_literal (AVAILABLE_ATTRIBUTES_AIRHUMIDIFIER_COMMON c @
      [(ATTR_TRANS_LEVEL, ''trans_level''),
       (ATTR_BUTTON_PRESSED, ''button_pressed''),
       (ATTR_HARDWARE_VERSION, ''hardware_version'')])"

definition AVAILABLE_ATTRIBUTES_AIRHUMIDIFIER_CA_AND_CB :: "imported \<Rightarrow> attr_table" where
  "AVAILABLE_ATTRIBUTES_AIRHUMIDIFIER_CA_AND_CB c =
    dict_literal (AVAILABLE_ATTRIBUTES_AIRHUMIDIFIER_COMMON c @
      [(ATTR_MOTOR_SPEED, ''motor_speed''),
       (ATTR_DEPTH, ''depth''),
       (ATTR_DRY, ''dry''),
       (ATTR_HARDWARE_VERSION, ''hardware_version'')])"

definition AVAILABLE_ATTRIBUTES_AIRHUMIDIFIER_CA4 :: "imported \<Rightarrow> attr_table" where
  "AVAILABLE_ATTRIBUTES_AIRHUMIDIFIER_CA4 c =
    dict_literal (AVAILABLE_ATTRIBUTES_AIRHUMIDIFIER_COMMON c @
      [(ATTR_ACTUAL_MOTOR_SPEED, ''actual_speed''),
       (ATTR_BUTTON_PRESSED, ''button_pressed''),
       (ATTR_DRY, ''dry''),
       (ATTR_FAHRENHEIT, ''fahrenheit''),
       (ATTR_MOTOR_SPEED, ''motor_speed'')])"

definition AVAILABLE_ATTRIBUTES_AIRFRESH :: "imported \<Rightarrow> attr_table" where
  "AVAILABLE_ATTRIBUTES_AIRFRESH c =
    dict_literal
      [(ATTR_TEMPERATURE c, ''temperature''),
       (ATTR_AIR_QUALITY_INDEX, ''aqi''),
       (ATTR_AVERAGE_AIR_QUALITY_INDEX, ''average_aqi''),
       (ATTR_CO2, ''co2''),
       (ATTR_HUMIDITY, ''humidity''),
       (ATTR_MODE c, ''mode''),
       (ATTR_LED, ''led''),
       (ATTR_LED_BRIGHTNESS, ''led_brightness''),
       (ATTR_BUZZER, ''buzzer''),
       (ATTR_CHILD_LOCK, ''child_lock''),
       (ATTR_FILTER_LIFE, ''filter_life_remaining''),
       (ATTR_FILTER_HOURS_USED, ''filter_hours_used''),
       (ATTR_USE_TIME, ''use_time''),
       (ATTR_MOTOR_SPEED, ''motor_speed''),
       (ATTR_EXTRA_FEATURES, ''extra_features'')]"

subsection \<open>Operation modes\<close>

definition OPERATION_MODES_AIRPURIFIER :: "string list" where
  "OPERATION_MODES_AIRPURIFIER = [''Auto'', ''Silent'', ''Favorite'', ''Idle'']"

definition OPERATION_MODES_AIRPURIFIER_PRO :: "string list" where
  "OPERATION_MODES_AIRPURIFIER_PRO = [''Auto'', ''Silent'', ''Favorite'']"

definition OPERATION_MODES_AIRPURIFIER_PRO_V7 :: "string list" where
  "OPERATION_MODES_AIRPURIFIER_PRO_V7 = OPERATION_MODES_AIRPURIFIER_PRO"

definition OPERATION_MODES_AIRPURIFIER_2S :: "string list" where
  "OPERATION_MODES_AIRPURIFIER_2S = [''Auto'', ''Silent'', ''Favorite'']"

definition OPERATION_MODES_AIRPURIFIER_3 :: "string list" where
  "OPERATION_MODES_AIRPURIFIER_3 = [''Auto'', ''Silent'', ''Favorite'', ''Fan'']"

definition OPERATION_MODES_AIRPURIFIER_V3 :: "string list" where
  "OPERATION_MODES_AIRPURIFIER_V3 =
    [''Auto'', ''Silent'', ''Favorite'', ''Idle'', ''Medium'', ''High'', ''Strong'']"

definition OPERATION_MODES_AIRPURIFIER_3C :: "string list" where
  "OPERATION_MODES_AIRPURIFIER_3C = [''Auto'', ''Silent'', ''Favorite'']"

definition OPERATION_MODES_AIRFRESH :: "string list" where
  "OPERATION_MODES_AIRFRESH = [''Auto'', ''Silent'', ''Interval'', ''Low'', ''Middle'', ''Strong'']"

definition SUCCESS :: pyresult where
  "SUCCESS = ResultList [PyStr ''ok'']"

subsection \<open>Feature flags\<close>

definition FEATURE_SET_BUZZER :: int where "FEATURE_SET_BUZZER = 1"
definition FEATURE_SET_LED :: int where "FEATURE_SET_LED = 2"
definition FEATURE_SET_CHILD_LOCK :: int where "FEATURE_SET_CHILD_LOCK = 4"
definition FEATURE_SET_LED_BRIGHTNESS :: int where "FEATURE_SET_LED_BRIGHTNESS = 8"
definition FEATURE_SET_FAVORITE_LEVEL :: int where "FEATURE_SET_FAVORITE_LEVEL = 16"
definition FEATURE_SET_AUTO_DETECT :: int where "FEATURE_SET_AUTO_DETECT = 32"
definition FEATURE_SET_LEARN_MODE :: int where "FEATURE_SET_LEARN_MODE = 64"
definition FEATURE_SET_VOLUME :: int where "FEATURE_SET_VOLUME = 128"
definition FEATURE_RESET_FILTER :: int where "FEATURE_RESET_FILTER = 256"
definition FEATURE_SET_EXTRA_FEATURES :: int where "FEATURE_SET_EXTRA_FEATURES = 512"
definition FEATURE_SET_TARGET_HUMIDITY :: int where "FEATURE_SET_TARGET_HUMIDITY = 1024"
definition FEATURE_SET_DRY :: int where "FEATURE_SET_DRY = 2048"
definition FEATURE_SET_FAN_LEVEL :: int where "FEATURE_SET_FAN_LEVEL = 4096"
definition FEATURE_SET_MOTOR_SPEED :: int where "FEATURE_SET_MOTOR_SPEED = 8192"

definition FEATURE_FLAGS_AIRPURIFIER :: int where
  "FEATURE_FLAGS_AIRPURIFIER =
    FEATURE_SET_BUZZER OR FEATURE_SET_CHILD_LOCK OR FEATURE_SET_LED
    OR FEATURE_SET_LED_BRIGHTNESS OR FEATURE_SET_FAVORITE_LEVEL OR FEATURE_SET_LEARN_MODE
    OR FEATURE_RESET_FILTER OR FEATURE_SET_EXTRA_FEATURES"

definition FEATURE_FLAGS_AIRPURIFIER_PRO :: int where
  "FEATURE_FLAGS_AIRPURIFIER_PRO =
    FEATURE_SET_CHILD_LOCK OR FEATURE_SET_LED OR FEATURE_SET_FAVORITE_LEVEL
    OR FEATURE_SET_AUTO_DETECT OR FEATURE_SET_VOLUME"

definition FEATURE_FLAGS_AIRPURIFIER_PRO_V7 :: int where
  "FEATURE_FLAGS_AIRPURIFIER_PRO_V7 =
    FEATURE_SET_CHILD_LOCK OR FEATURE_SET_LED OR FEATURE_SET_FAVORITE_LEVEL
    OR FEATURE_SET_VOLUME"

definition FEATURE_FLAGS_AIRPURIFIER_2S :: int where
  "FEATURE_FLAGS_AIRPURIFIER_2S =
    FEATURE_SET_BUZZER OR FEATURE_SET_CHILD_LOCK OR FEATURE_SET_LED
    OR FEATURE_SET_FAVORITE_LEVEL"

definition FEATURE_FLAGS_AIRPURIFIER_3 :: int where
  "FEATURE_FLAGS_AIRPURIFIER_3 =
    FEATURE_SET_BUZZER OR FEATURE_SET_CHILD_LOCK OR FEATURE_SET_LED
    OR FEATURE_SET_FAVORITE_LEVEL OR FEATURE_SET_FAN_LEVEL OR FEATURE_SET_LED_BRIGHTNESS"

definition FEATURE_FLAGS_AIRPURIFIER_3C :: int where
  "FEATURE_FLAGS_AIRPURIFIER_3C =
    FEATURE_SET_BUZZER OR FEATURE_SET_CHILD_LOCK OR FEATURE_SET_LED
    OR FEATURE_SET_FAVORITE_LEVEL OR FEATURE_SET_FAN_LEVEL OR FEATURE_SET_LED_BRIGHTNESS"

definition FEATURE_FLAGS_AIRPURIFIER_V3 :: int where
  "FEATURE_FLAGS_AIRPURIFIER_V3 =
    FEATURE_SET_BUZZER OR FEATURE_SET_CHILD_LOCK OR FEATURE_SET_LED"

definition FEATURE_FLAGS_AIRHUMIDIFIER :: int where
  "FEATURE_FLAGS_AIRHUMIDIFIER =
    FEATURE_SET_BUZZER OR FEATURE_SET_CHILD_LOCK OR FEATURE_SET_LED
    OR FEATURE_SET_LED_BRIGHTNESS OR FEATURE_SET_TARGET_HUMIDITY"

definition FEATURE_FLAGS_AIRHUMIDIFIER_CA_AND_CB :: int where
  "FEATURE_FLAGS_AIRHUMIDIFIER_CA_AND_CB = FEATURE_FLAGS_AIRHUMIDIFIER OR FEATURE_SET_DRY"

definition FEATURE_FLAGS_AIRHUMIDIFIER_CA4 :: int where
  "FEATURE_FLAGS_AIRHUMIDIFIER_CA4 =
    FEATURE_SET_BUZZER OR FEATURE_SET_CHILD_LOCK OR FEATURE_SET_LED_BRIGHTNESS
    OR FEATURE_SET_TARGET_HUMIDITY OR FEATURE_SET_DRY OR FEATURE_SET_MOTOR_SPEED"

definition FEATURE_FLAGS_AIRFRESH :: int where
  "FEATURE_FLAGS_AIRFRESH =
    FEATURE_SET_BUZZER OR FEATURE_SET_CHILD_LOCK OR FEATURE_SET_LED
    OR FEATURE_SET_LED_BRIGHTNESS OR FEATURE_RESET_FILTER OR FEATURE_SET_EXTRA_FEATURES"

section \<open>The vendor device and the entity\<close>

text \<open>
  The calls \<^verbatim>\<open>fan.py\<close> makes on \<^verbatim>\<open>self._device\<close>. An enumeration member passed to the
  vendor is written as its enumeration and its name (operation modes) or value (led
  brightness).
\<close>

datatype miio_call =
    call_on
  | call_off
  | call_status
  | call_set_buzzer bool
  | call_set_child_lock bool
  | call_set_led bool
  | call_set_led_brightness led_enum int
  | call_set_favorite_level int
  | call_set_fan_level int
  | call_set_auto_detect bool
  | call_set_learn_mode bool
  | call_set_volume int
  | call_set_extra_features int
  | call_reset_filter
  | call_set_mode mode_enum string
  | call_set_target_humidity int
  | call_set_dry bool
  | call_set_speed int

text \<open>A vendor call returns a value or raises \<^verbatim>\<open>DeviceException\<close>.\<close>

datatype 'a reply = Returned 'a | DeviceException string

text \<open>
  The status object: \<^verbatim>\<open>is_on\<close>, and the other attributes by name; an attribute the
  object does not have makes \<^verbatim>\<open>getattr\<close> raise \<^verbatim>\<open>AttributeError\<close>.
\<close>

record device_status =
  is_on :: bool
  attribute :: "string \<Rightarrow> pyval option"

text \<open>
  The hardware behind \<^verbatim>\<open>self._device\<close> during one operation of the entity: what it
  answers to a command and to \<^verbatim>\<open>status()\<close>.
\<close>

record vendor =
  answer :: "miio_call \<Rightarrow> pyresult reply"
  status_answer :: "device_status reply"

datatype device_class =
    XiaomiAirPurifier
  | XiaomiAirPurifierMiot
  | XiaomiAirHumidifier
  | XiaomiAirHumidifierMiot
  | XiaomiAirFresh

text \<open>
  The entity's fields. \<open>vendor_calls\<close> and \<open>error_log\<close> are not fields of the Python
  object: they record the calls issued on \<^verbatim>\<open>self._device\<close> and the lines written with
  \<^verbatim>\<open>_LOGGER.error\<close> (message and exception), in order.
\<close>

record device =
  cls :: device_class
  model :: string
  entity_id :: string
  available :: bool
  state :: "bool option"
  state_attrs :: "(string \<times> pyval) list"
  device_features :: int
  skip_update :: bool
  available_attributes :: attr_table
  speed_list :: "string list"
  vendor_calls :: "miio_call list"
  error_log :: "(string \<times> string) list"

definition supported_features :: "imported \<Rightarrow> device \<Rightarrow> int" where
  "supported_features c d = SUPPORT_SET_SPEED c"

subsection \<open>XiaomiGenericDevice\<close>

text \<open>
  Modelled from the spec: the base class \<^verbatim>\<open>XiaomiMiioEntity\<close> is not among the sources.
  Its constructor, called first, keeps the model string the entity is constructed from as
  \<^verbatim>\<open>self._model\<close> ("chosen once at device-entity construction from a model string");
  the entity id is given by the host. The other fields are set as
  \<^verbatim>\<open>XiaomiGenericDevice.__init__\<close> sets them.
\<close>

definition XiaomiGenericDevice_init :: "device_class \<Rightarrow> string \<Rightarrow> string \<Rightarrow> device" where
  "XiaomiGenericDevice_init k m eid =
    \<lparr>cls = k, model = m, entity_id = eid,
     available = False,
     state = None,
     state_attrs = dict_literal [(ATTR_MODEL, Plain (PyStr m))],
     device_features = FEATURE_SET_CHILD_LOCK,
     skip_update = False,
     available_attributes = [],
     speed_list = [],
     vendor_calls = [],
     error_log = []\<rparr>"

definition extract_value_from_attribute :: "device_status \<Rightarrow> string \<Rightarrow> pyval res" where
  "extract_value_from_attribute st attr =
    (case attribute st attr of
       None \<Rightarrow> Raise (AttributeError attr)
     | Some v \<Rightarrow>
         (case v of
            EnumMember n x \<Rightarrow> Return (Plain x)
          | Plain x \<Rightarrow> Return v))"

definition try_command :: "vendor \<Rightarrow> device \<Rightarrow> string \<Rightarrow> miio_call \<Rightarrow> bool \<times> device" where
  "try_command v d mask_error func =
    (let d1 = d\<lparr>vendor_calls := vendor_calls d @ [func]\<rparr> in
     case answer v func of
       Returned result \<Rightarrow> (result = SUCCESS, d1)
     | DeviceException exc \<Rightarrow>
         (False,
          if available d1
          then d1\<lparr>error_log := error_log d1 @ [(mask_error, exc)], available := False\<rparr>
          else d1))"

text \<open>A named action awaits \<^verbatim>\<open>_try_command\<close>, drops its result and returns \<^verbatim>\<open>None\<close>.\<close>

definition command :: "vendor \<Rightarrow> device \<Rightarrow> string \<Rightarrow> miio_call \<Rightarrow> unit res \<times> device" where
  "command v d mask_error func = (Return (), snd (try_command v d mask_error func))"


definition async_set_buzzer_on :: "vendor \<Rightarrow> device \<Rightarrow> unit res \<times> device" where
  "async_set_buzzer_on v d =
    (if device_features d AND FEATURE_SET_BUZZER = 0 then (Return (), d)
     else command v d ''Turning the buzzer of the miio device on failed.''
            (call_set_buzzer True))"

definition async_set_buzzer_off :: "vendor \<Rightarrow> device \<Rightarrow> unit res \<times> device" where
  "async_set_buzzer_off v d =
    (if device_features d AND FEATURE_SET_BUZZER = 0 then (Return (), d)
     else command v d ''Turning the buzzer of the miio device off failed.''
            (call_set_buzzer False))"

definition async_set_child_lock_on :: "vendor \<Rightarrow> device \<Rightarrow> unit res \<times> device" where
  "async_set_child_lock_on v d =
    (if device_features d AND FEATURE_SET_CHILD_LOCK = 0 then (Return (), d)
     else command v d ''Turning the child lock of the miio device on failed.''
            (call_set_child_lock True))"

definition async_set_child_lock_off :: "vendor \<Rightarrow> device \<Rightarrow> unit res \<times> device" where
  "async_set_child_lock_off v d =
    (if device_features d AND FEATURE_SET_CHILD_LOCK = 0 then (Return (), d)
     else command v d ''Turning the child lock of the miio device off failed.''
            (call_set_child_lock False))"

subsection \<open>Construction of the three families\<close>

text \<open>\<^verbatim>\<open>self._state_attrs.update({attribute: None for attribute in ...})\<close>\<close>

definition attrs_none :: "attr_table \<Rightarrow> (string \<times> pyval) list" where
  "attrs_none table = dict_literal (map (\<lambda>(k, f). (k, Plain PyNone)) table)"

definition XiaomiAirPurifier_init :: "imported \<Rightarrow> device_class \<Rightarrow> string \<Rightarrow> string \<Rightarrow> device" where
  "XiaomiAirPurifier_init c k m eid =
    (let d = XiaomiGenericDevice_init k m eid;
         d1 =
          (if model d = MODEL_AIRPURIFIER_PRO c then
             d\<lparr>device_features := FEATURE_FLAGS_AIRPURIFIER_PRO,
               available_attributes := AVAILABLE_ATTRIBUTES_AIRPURIFIER_PRO c,
               speed_list := OPERATION_MODES_AIRPURIFIER_PRO\<rparr>
           else if model d = MODEL_AIRPURIFIER_PRO_V7 c then
             d\<lparr>device_features := FEATURE_FLAGS_AIRPURIFIER_PRO_V7,
               available_attributes := AVAILABLE_ATTRIBUTES_AIRPURIFIER_PRO_V7 c,
               speed_list := OPERATION_MODES_AIRPURIFIER_PRO_V7\<rparr>
           else if model d = MODEL_AIRPURIFIER_2S c then
             d\<lparr>device_features := FEATURE_FLAGS_AIRPURIFIER_2S,
               available_attributes := AVAILABLE_ATTRIBUTES_AIRPURIFIER_2S c,
               speed_list := OPERATION_MODES_AIRPURIFIER_2S\<rparr>
           else if model d = MODEL_AIRPURIFIER_3 c \<or> model d = MODEL_AIRPURIFIER_3H c then
             d\<lparr>device_features := FEATURE_FLAGS_AIRPURIFIER_3,
               available_attributes := AVAILABLE_ATTRIBUTES_AIRPURIFIER_3 c,
               speed_list := OPERATION_MODES_AIRPURIFIER_3\<rparr>
           else if model d = MODEL_AIRPURIFIER_V3 c then
             d\<lparr>device_features := FEATURE_FLAGS_AIRPURIFIER_V3,
               available_attributes := AVAILABLE_ATTRIBUTES_AIRPURIFIER_V3 c,
               speed_list := OPERATION_MODES_AIRPURIFIER_V3\<rparr>
           else if model d = MODEL_AIRPURIFIER_3C c then
             d\<lparr>device_features := FEATURE_FLAGS_AIRPURIFIER_3C,
               available_attributes := AVAILABLE_ATTRIBUTES_AIRPURIFIER_3C c,
               speed_list := OPERATION_MODES_AIRPURIFIER_3C\<rparr>
           else
             d\<lparr>device_features := FEATURE_FLAGS_AIRPURIFIER,
               available_attributes := AVAILABLE_ATTRIBUTES_AIRPURIFIER c,
               speed_list := OPERATION_MODES_AIRPURIFIER\<rparr>)
     in d1\<lparr>state_attrs := dict_update (state_attrs d1) (attrs_none (available_attributes d1))\<rparr>)"

definition XiaomiAirHumidifier_init :: "imported \<Rightarrow> device_class \<Rightarrow> string \<Rightarrow> string \<Rightarrow> device" where
  "XiaomiAirHumidifier_init c k m eid =
    (let d = XiaomiGenericDevice_init k m eid;
         d1 =
          (if model d \<in> set [MODEL_AIRHUMIDIFIER_CA1 c, MODEL_AIRHUMIDIFIER_CB1 c] then
             d\<lparr>device_features := FEATURE_FLAGS_AIRHUMIDIFIER_CA_AND_CB,
               available_attributes := AVAILABLE_ATTRIBUTES_AIRHUMIDIFIER_CA_AND_CB c,
               speed_list :=
                 filter (\<lambda>name. name \<noteq> ''Strong'') (member_names c AirhumidifierOperationMode)\<rparr>
           else if model d \<in> set [MODEL_AIRHUMIDIFIER_CA4 c] then
             d\<lparr>device_features := FEATURE_FLAGS_AIRHUMIDIFIER_CA4,
               available_attributes := AVAILABLE_ATTRIBUTES_AIRHUMIDIFIER_CA4 c,
               speed_list := [SPEED_LOW c, SPEED_MEDIUM c, SPEED_HIGH c]\<rparr>
           else
             d\<lparr>device_features := FEATURE_FLAGS_AIRHUMIDIFIER,
               available_attributes := AVAILABLE_ATTRIBUTES_AIRHUMIDIFIER c,
               speed_list :=
                 filter (\<lambda>name. name \<noteq> ''Auto'') (member_names c AirhumidifierOperationMode)\<rparr>)
     in d1\<lparr>state_attrs := dict_update (state_attrs d1) (attrs_none (available_attributes d1))\<rparr>)"

definition XiaomiAirFresh_init :: "imported \<Rightarrow> device_class \<Rightarrow> string \<Rightarrow> string \<Rightarrow> device" where
  "XiaomiAirFresh_init c k m eid =
    (let d = XiaomiGenericDevice_init k m eid;
         d1 = d\<lparr>device_features := FEATURE_FLAGS_AIRFRESH,
                 available_attributes := AVAILABLE_ATTRIBUTES_AIRFRESH c,
                 speed_list := OPERATION_MODES_AIRFRESH\<rparr>
     in d1\<lparr>state_attrs := dict_update (state_attrs d1) (attrs_none (available_attributes d1))\<rparr>)"

text \<open>The MiOT classes inherit \<^verbatim>\<open>__init__\<close> from their families.\<close>

definition entity_init :: "imported \<Rightarrow> device_class \<Rightarrow> string \<Rightarrow> string \<Rightarrow> device" where
  "entity_init c k m eid =
    (case k of
       XiaomiAirPurifier \<Rightarrow> XiaomiAirPurifier_init c k m eid
     | XiaomiAirPurifierMiot \<Rightarrow> XiaomiAirPurifier_init c k m eid
     | XiaomiAirHumidifier \<Rightarrow> XiaomiAirHumidifier_init c k m eid
     | XiaomiAirHumidifierMiot \<Rightarrow> XiaomiAirHumidifier_init c k m eid
     | XiaomiAirFresh \<Rightarrow> XiaomiAirFresh_init c k m eid)"

subsection \<open>Polling\<close>

text \<open>
  The dict comprehension of \<^verbatim>\<open>async_update\<close>: the items of the table in order, each value
  read off the status; the first read that raises ends it.
\<close>

fun extract_all :: "device_status \<Rightarrow> attr_table \<Rightarrow> (string \<times> pyval) list \<Rightarrow> (string \<times> pyval) list res" where
  "extract_all st [] acc = Return acc"
| "extract_all st ((key, attr) # items) acc =
    (case extract_value_from_attribute st attr of
       Raise e \<Rightarrow> Raise e
     | Return x \<Rightarrow> extract_all st items (AList.update key x acc))"

text \<open>
  \<^verbatim>\<open>async_update\<close> is written three times, with the same text, in XiaomiAirPurifier,
  XiaomiAirHumidifier and XiaomiAirFresh.
\<close>

definition async_update :: "vendor \<Rightarrow> device \<Rightarrow> unit res \<times> device" where
  "async_update v d =
    (if skip_update d then (Return (), d\<lparr>skip_update := False\<rparr>)
     else
       (let d1 = d\<lparr>vendor_calls := vendor_calls d @ [call_status]\<rparr> in
        case status_answer v of
          Returned st \<Rightarrow>
            (let d2 = d1\<lparr>available := True, state := Some (is_on st)\<rparr> in
             case extract_all st (available_attributes d2) [] of
               Raise e \<Rightarrow> (Raise e, d2)
             | Return new \<Rightarrow> (Return (), d2\<lparr>state_attrs := dict_update (state_attrs d2) new\<rparr>))
        | DeviceException ex \<Rightarrow>
            (Return (),
             if available d1
             then d1\<lparr>available := False,
                     error_log := error_log d1 @ [(''Got exception while fetching the state: %s'', ex)]\<rparr>
             else d1)))"

subsection \<open>Speed and operation mode\<close>

text \<open>
  \<^verbatim>\<open>str.title()\<close> on ASCII text: the first letter of every run of letters in upper
  case, the other letters in lower case. Python also changes the case of letters outside
  ASCII, which a \<open>string\<close> of bytes does not describe: \<open>title\<close> stands for
  \<^verbatim>\<open>str.title()\<close> on the strings that satisfy \<open>ascii_only\<close>, and statements about it
  are made for those.
\<close>

definition ascii_only :: "string \<Rightarrow> bool" where
  "ascii_only s = list_all (\<lambda>ch. \<not> digit7 ch) s"

definition ascii_lowercase :: string where
  "ascii_lowercase = ''abcdefghijklmnopqrstuvwxyz''"

definition ascii_uppercase :: string where
  "ascii_uppercase = ''ABCDEFGHIJKLMNOPQRSTUVWXYZ''"

definition to_upper :: "char \<Rightarrow> char" where
  "to_upper ch = (case map_of (zip ascii_lowercase ascii_uppercase) ch of Some u \<Rightarrow> u | None \<Rightarrow> ch)"

definition to_lower :: "char \<Rightarrow> char" where
  "to_lower ch = (case map_of (zip ascii_uppercase ascii_lowercase) ch of Some l \<Rightarrow> l | None \<Rightarrow> ch)"

fun title_from :: "bool \<Rightarrow> string \<Rightarrow> string" where
  "title_from previous_is_cased [] = []"
| "title_from previous_is_cased (ch # rest) =
    (if ch \<in> set ascii_lowercase then
       (if previous_is_cased then ch else to_upper ch) # title_from True rest
     else if ch \<in> set ascii_uppercase then
       (if previous_is_cased then to_lower ch else ch) # title_from True rest
     else ch # title_from False rest)"

definition title :: "string \<Rightarrow> string" where
  "title s = title_from False s"

text \<open>
  \<^verbatim>\<open>async_set_speed\<close> of XiaomiAirPurifier, XiaomiAirPurifierMiot, XiaomiAirHumidifier and
  XiaomiAirFresh: the same text up to the enumeration the name is looked up in
  (\<^verbatim>\<open>Enum[name]\<close> raises \<^verbatim>\<open>KeyError\<close> for a name that is no member). It returns
  \<^verbatim>\<open>None\<close>.
\<close>

definition set_speed_in :: "imported \<Rightarrow> mode_enum \<Rightarrow> vendor \<Rightarrow> device \<Rightarrow> string \<Rightarrow> bool option res \<times> device" where
  "set_speed_in c enum v d speed =
    (if supported_features c d AND SUPPORT_SET_SPEED c = 0 then (Return None, d)
     else if title speed \<in> set (member_names c enum) then
       (Return None,
        snd (try_command v d ''Setting operation mode of the miio device failed.''
              (call_set_mode enum (title speed))))
     else (Raise (KeyError (title speed)), d))"

text \<open>XiaomiAirHumidifierMiot: the mapping is keyed by the members Low, Mid and High.\<close>

definition MODE_MAPPING :: "imported \<Rightarrow> (string \<times> string) list" where
  "MODE_MAPPING c =
    dict_literal [(''Low'', SPEED_LOW c), (''Mid'', SPEED_MEDIUM c), (''High'', SPEED_HIGH c)]"

definition REVERSE_MODE_MAPPING :: "imported \<Rightarrow> (string \<times> string) list" where
  "REVERSE_MODE_MAPPING c = dict_literal (map (\<lambda>(k, v). (v, k)) (MODE_MAPPING c))"

definition XiaomiAirHumidifierMiot_async_set_speed ::
  "imported \<Rightarrow> vendor \<Rightarrow> device \<Rightarrow> string \<Rightarrow> bool option res \<times> device" where
  "XiaomiAirHumidifierMiot_async_set_speed c v d speed =
    (case map_of (REVERSE_MODE_MAPPING c) speed of
       None \<Rightarrow> (Raise (KeyError speed), d)
     | Some member \<Rightarrow>
         (Return None,
          snd (try_command v d ''Setting operation mode of the miio device failed.''
                (call_set_mode AirhumidifierMiotOperationMode member))))"

definition async_set_speed :: "imported \<Rightarrow> vendor \<Rightarrow> device \<Rightarrow> string \<Rightarrow> bool option res \<times> device" where
  "async_set_speed c v d speed =
    (case cls d of
       XiaomiAirPurifier \<Rightarrow> set_speed_in c AirpurifierOperationMode v d speed
     | XiaomiAirPurifierMiot \<Rightarrow> set_speed_in c AirpurifierMiotOperationMode v d speed
     | XiaomiAirHumidifier \<Rightarrow> set_speed_in c AirhumidifierOperationMode v d speed
     | XiaomiAirHumidifierMiot \<Rightarrow> XiaomiAirHumidifierMiot_async_set_speed c v d speed
     | XiaomiAirFresh \<Rightarrow> set_speed_in c AirfreshOperationMode v d speed)"



subsection \<open>Named actions of the families\<close>

text \<open>
  A parameter with a default (\<^verbatim>\<open>level: int = 1\<close>) is an \<open>int option\<close>: \<open>None\<close> when the
  caller leaves it out. XiaomiAirPurifier and XiaomiAirFresh both define
  \<^verbatim>\<open>async_set_led_on\<close>, \<^verbatim>\<open>async_set_led_off\<close>, \<^verbatim>\<open>async_set_extra_features\<close> and
  \<^verbatim>\<open>async_reset_filter\<close>, with the same text.
\<close>

definition default :: "int \<Rightarrow> int option \<Rightarrow> int" where
  "default n arg = (case arg of None \<Rightarrow> n | Some x \<Rightarrow> x)"

definition async_set_led_on :: "vendor \<Rightarrow> device \<Rightarrow> unit res \<times> device" where
  "async_set_led_on v d =
    (if device_features d AND FEATURE_SET_LED = 0 then (Return (), d)
     else command v d ''Turning the led of the miio device off failed.''
            (call_set_led True))"

definition async_set_led_off :: "vendor \<Rightarrow> device \<Rightarrow> unit res \<times> device" where
  "async_set_led_off v d =
    (if device_features d AND FEATURE_SET_LED = 0 then (Return (), d)
     else command v d ''Turning the led of the miio device off failed.''
            (call_set_led False))"

text \<open>
  \<^verbatim>\<open>async_set_led_brightness\<close> is written in all five classes, the same text up to the
  enumeration; \<^verbatim>\<open>Enum(value)\<close> raises \<^verbatim>\<open>ValueError\<close> for a value of no member.
\<close>

definition set_led_brightness_in :: "imported \<Rightarrow> led_enum \<Rightarrow> vendor \<Rightarrow> device \<Rightarrow> int option \<Rightarrow> unit res \<times> device" where
  "set_led_brightness_in c enum v d brightness =
    (if device_features d AND FEATURE_SET_LED_BRIGHTNESS = 0 then (Return (), d)
     else if default 2 brightness \<in> set (member_values c enum) then
       command v d ''Setting the led brightness of the miio device failed.''
         (call_set_led_brightness enum (default 2 brightness))
     else (Raise ValueError, d))"

definition async_set_led_brightness :: "imported \<Rightarrow> vendor \<Rightarrow> device \<Rightarrow> int option \<Rightarrow> unit res \<times> device" where
  "async_set_led_brightness c v d brightness =
    (case cls d of
       XiaomiAirPurifier \<Rightarrow> set_led_brightness_in c AirpurifierLedBrightness v d brightness
     | XiaomiAirPurifierMiot \<Rightarrow> set_led_brightness_in c AirpurifierMiotLedBrightness v d brightness
     | XiaomiAirHumidifier \<Rightarrow> set_led_brightness_in c AirhumidifierLedBrightness v d brightness
     | XiaomiAirHumidifierMiot \<Rightarrow>
         set_led_brightness_in c AirhumidifierMiotLedBrightness v d brightness
     | XiaomiAirFresh \<Rightarrow> set_led_brightness_in c AirfreshLedBrightness v d brightness)"

definition async_set_favorite_level :: "vendor \<Rightarrow> device \<Rightarrow> int option \<Rightarrow> unit res \<times> device" where
  "async_set_favorite_level v d level =
    (if device_features d AND FEATURE_SET_FAVORITE_LEVEL = 0 then (Return (), d)
     else command v d ''Setting the favorite level of the miio device failed.''
            (call_set_favorite_level (default 1 level)))"

definition async_set_fan_level :: "vendor \<Rightarrow> device \<Rightarrow> int option \<Rightarrow> unit res \<times> device" where
  "async_set_fan_level v d level =
    (if device_features d AND FEATURE_SET_FAN_LEVEL = 0 then (Return (), d)
     else command v d ''Setting the fan level of the miio device failed.''
            (call_set_fan_level (default 1 level)))"

definition async_set_auto_detect_on :: "vendor \<Rightarrow> device \<Rightarrow> unit res \<times> device" where
  "async_set_auto_detect_on v d =
    (if device_features d AND FEATURE_SET_AUTO_DETECT = 0 then (Return (), d)
     else command v d ''Turning the auto detect of the miio device on failed.''
            (call_set_auto_detect True))"

definition async_set_auto_detect_off :: "vendor \<Rightarrow> device \<Rightarrow> unit res \<times> device" where
  "async_set_auto_detect_off v d =
    (if device_features d AND FEATURE_SET_AUTO_DETECT = 0 then (Return (), d)
     else command v d ''Turning the auto detect of the miio device off failed.''
            (call_set_auto_detect False))"

definition async_set_learn_mode_on :: "vendor \<Rightarrow> device \<Rightarrow> unit res \<times> device" where
  "async_set_learn_mode_on v d =
    (if device_features d AND FEATURE_SET_LEARN_MODE = 0 then (Return (), d)
     else command v d ''Turning the learn mode of the miio device on failed.''
            (call_set_learn_mode True))"

definition async_set_learn_mode_off :: "vendor \<Rightarrow> device \<Rightarrow> unit res \<times> device" where
  "async_set_learn_mode_off v d =
    (if device_features d AND FEATURE_SET_LEARN_MODE = 0 then (Return (), d)
     else command v d ''Turning the learn mode of the miio device off failed.''
            (call_set_learn_mode False))"

definition async_set_volume :: "vendor \<Rightarrow> device \<Rightarrow> int option \<Rightarrow> unit res \<times> device" where
  "async_set_volume v d volume =
    (if device_features d AND FEATURE_SET_VOLUME = 0 then (Return (), d)
     else command v d ''Setting the sound volume of the miio device failed.''
            (call_set_volume (default 50 volume)))"

definition async_set_extra_features :: "vendor \<Rightarrow> device \<Rightarrow> int option \<Rightarrow> unit res \<times> device" where
  "async_set_extra_features v d features =
    (if device_features d AND FEATURE_SET_EXTRA_FEATURES = 0 then (Return (), d)
     else command v d ''Setting the extra features of the miio device failed.''
            (call_set_extra_features (default 1 features)))"

definition async_reset_filter :: "vendor \<Rightarrow> device \<Rightarrow> unit res \<times> device" where
  "async_reset_filter v d =
    (if device_features d AND FEATURE_RESET_FILTER = 0 then (Return (), d)
     else command v d ''Resetting the filter lifetime of the miio device failed.''
            (call_reset_filter))"

definition async_set_target_humidity :: "vendor \<Rightarrow> device \<Rightarrow> int option \<Rightarrow> unit res \<times> device" where
  "async_set_target_humidity v d humidity =
    (if device_features d AND FEATURE_SET_TARGET_HUMIDITY = 0 then (Return (), d)
     else command v d ''Setting the target humidity of the miio device failed.''
            (call_set_target_humidity (default 40 humidity)))"

definition async_set_dry_on :: "vendor \<Rightarrow> device \<Rightarrow> unit res \<times> device" where
  "async_set_dry_on v d =
    (if device_features d AND FEATURE_SET_DRY = 0 then (Return (), d)
     else command v d ''Turning the dry mode of the miio device off failed.''
            (call_set_dry True))"

definition async_set_dry_off :: "vendor \<Rightarrow> device \<Rightarrow> unit res \<times> device" where
  "async_set_dry_off v d =
    (if device_features d AND FEATURE_SET_DRY = 0 then (Return (), d)
     else command v d ''Turning the dry mode of the miio device off failed.''
            (call_set_dry False))"

definition async_set_motor_speed :: "vendor \<Rightarrow> device \<Rightarrow> int option \<Rightarrow> unit res \<times> device" where
  "async_set_motor_speed v d motor_speed =
    (if device_features d AND FEATURE_SET_MOTOR_SPEED = 0 then (Return (), d)
     else command v d ''Setting the target motor speed of the miio device failed.''
            (call_set_speed (default 400 motor_speed)))"

subsection \<open>Which class has which method\<close>

definition generic_methods :: "string list" where
  "generic_methods =
    [''async_set_buzzer_on'', ''async_set_buzzer_off'',
     ''async_set_child_lock_on'', ''async_set_child_lock_off'']"

definition purifier_methods :: "string list" where
  "purifier_methods =
    [''async_set_led_on'', ''async_set_led_off'', ''async_set_led_brightness'',
     ''async_set_favorite_level'', ''async_set_fan_level'',
     ''async_set_auto_detect_on'', ''async_set_auto_detect_off'',
     ''async_set_learn_mode_on'', ''async_set_learn_mode_off'',
     ''async_set_volume'', ''async_set_extra_features'', ''async_reset_filter'']"

definition humidifier_methods :: "string list" where
  "humidifier_methods =
    [''async_set_led_brightness'', ''async_set_target_humidity'',
     ''async_set_dry_on'', ''async_set_dry_off'']"

definition humidifier_miot_methods :: "string list" where
  "humidifier_miot_methods = [''async_set_led_brightness'', ''async_set_motor_speed'']"

definition airfresh_methods :: "string list" where
  "airfresh_methods =
    [''async_set_led_on'', ''async_set_led_off'', ''async_set_led_brightness'',
     ''async_set_extra_features'', ''async_reset_filter'']"

text \<open>The named-action methods an entity of a class has, its own and the inherited ones.\<close>

definition methods_of :: "device_class \<Rightarrow> string list" where
  "methods_of k =
    (case k of
       XiaomiAirPurifier \<Rightarrow> generic_methods @ purifier_methods
     | XiaomiAirPurifierMiot \<Rightarrow> generic_methods @ purifier_methods
     | XiaomiAirHumidifier \<Rightarrow> generic_methods @ humidifier_methods
     | XiaomiAirHumidifierMiot \<Rightarrow>
         generic_methods @ humidifier_methods @ humidifier_miot_methods
     | XiaomiAirFresh \<Rightarrow> generic_methods @ airfresh_methods)"

text \<open>Calling the method of that name with the validated parameter.\<close>

definition call_method :: "imported \<Rightarrow> string \<Rightarrow> vendor \<Rightarrow> device \<Rightarrow> int option \<Rightarrow> unit res \<times> device" where
  "call_method c name v d arg =
    (if name = ''async_set_buzzer_on'' then async_set_buzzer_on v d
     else if name = ''async_set_buzzer_off'' then async_set_buzzer_off v d
     else if name = ''async_set_child_lock_on'' then async_set_child_lock_on v d
     else if name = ''async_set_child_lock_off'' then async_set_child_lock_off v d
     else if name = ''async_set_led_on'' then async_set_led_on v d
     else if name = ''async_set_led_off'' then async_set_led_off v d
     else if name = ''async_set_led_brightness'' then async_set_led_brightness c v d arg
     else if name = ''async_set_favorite_level'' then async_set_favorite_level v d arg
     else if name = ''async_set_fan_level'' then async_set_fan_level v d arg
     else if name = ''async_set_auto_detect_on'' then async_set_auto_detect_on v d
     else if name = ''async_set_auto_detect_off'' then async_set_auto_detect_off v d
     else if name = ''async_set_learn_mode_on'' then async_set_learn_mode_on v d
     else if name = ''async_set_learn_mode_off'' then async_set_learn_mode_off v d
     else if name = ''async_set_volume'' then async_set_volume v d arg
     else if name = ''async_set_extra_features'' then async_set_extra_features v d arg
     else if name = ''async_reset_filter'' then async_reset_filter v d
     else if name = ''async_set_target_humidity'' then async_set_target_humidity v d arg
     else if name = ''async_set_dry_on'' then async_set_dry_on v d
     else if name = ''async_set_dry_off'' then async_set_dry_off v d
     else async_set_motor_speed v d arg)"

text \<open>\<^verbatim>\<open>getattr(entity, method["method"], None)\<close>\<close>

definition getattr_method ::
  "imported \<Rightarrow> device \<Rightarrow> string \<Rightarrow> (vendor \<Rightarrow> device \<Rightarrow> int option \<Rightarrow> unit res \<times> device) option" where
  "getattr_method c d name =
    (if name \<in> set (methods_of (cls d)) then Some (call_method c name) else None)"

section \<open>Services\<close>

text \<open>The keys of \<^verbatim>\<open>SERVICE_TO_METHOD\<close>; their strings come from outside the sources.\<close>

datatype service =
    SERVICE_SET_BUZZER_ON
  | SERVICE_SET_BUZZER_OFF
  | SERVICE_SET_FAN_LED_ON
  | SERVICE_SET_FAN_LED_OFF
  | SERVICE_SET_CHILD_LOCK_ON
  | SERVICE_SET_CHILD_LOCK_OFF
  | SERVICE_SET_AUTO_DETECT_ON
  | SERVICE_SET_AUTO_DETECT_OFF
  | SERVICE_SET_LEARN_MODE_ON
  | SERVICE_SET_LEARN_MODE_OFF
  | SERVICE_RESET_FILTER
  | SERVICE_SET_LED_BRIGHTNESS
  | SERVICE_SET_FAVORITE_LEVEL
  | SERVICE_SET_FAN_LEVEL
  | SERVICE_SET_VOLUME
  | SERVICE_SET_EXTRA_FEATURES
  | SERVICE_SET_TARGET_HUMIDITY
  | SERVICE_SET_DRY_ON
  | SERVICE_SET_DRY_OFF
  | SERVICE_SET_MOTOR_SPEED

text \<open>
  The validators the schemas are built from, after \<^verbatim>\<open>vol.Coerce(int)\<close>:
  \<^verbatim>\<open>vol.Clamp(min, max)\<close> moves a value outside the range to the nearest bound and
  accepts it, \<^verbatim>\<open>vol.In(container)\<close> raises \<^verbatim>\<open>Invalid\<close> for a value not in the
  container, \<^verbatim>\<open>cv.positive_int\<close> is imported.
\<close>

datatype validator = Clamp int int | In_list "int list" | Positive_int

fun validate :: "imported \<Rightarrow> validator \<Rightarrow> int \<Rightarrow> int res" where
  "validate c (Clamp lo hi) x =
    (let v = (if x < lo then lo else x);
         v = (if v > hi then hi else v)
     in Return v)"
| "validate c (In_list container) x = (if x \<in> set container then Return x else Raise Invalid)"
| "validate c Positive_int x =
    (case positive_int c x of None \<Rightarrow> Raise Invalid | Some y \<Rightarrow> Return y)"

text \<open>The key each schema requires and its validator.\<close>

definition SERVICE_SCHEMA_LED_BRIGHTNESS :: "string \<times> validator" where
  "SERVICE_SCHEMA_LED_BRIGHTNESS = (ATTR_BRIGHTNESS, Clamp 0 2)"

definition SERVICE_SCHEMA_FAVORITE_LEVEL :: "string \<times> validator" where
  "SERVICE_SCHEMA_FAVORITE_LEVEL = (ATTR_LEVEL, Clamp 0 17)"

definition SERVICE_SCHEMA_FAN_LEVEL :: "string \<times> validator" where
  "SERVICE_SCHEMA_FAN_LEVEL = (ATTR_LEVEL, Clamp 1 3)"

definition SERVICE_SCHEMA_VOLUME :: "string \<times> validator" where
  "SERVICE_SCHEMA_VOLUME = (ATTR_VOLUME, Clamp 0 100)"

definition SERVICE_SCHEMA_EXTRA_FEATURES :: "string \<times> validator" where
  "SERVICE_SCHEMA_EXTRA_FEATURES = (ATTR_FEATURES, Positive_int)"

definition SERVICE_SCHEMA_TARGET_HUMIDITY :: "string \<times> validator" where
  "SERVICE_SCHEMA_TARGET_HUMIDITY = (ATTR_HUMIDITY, In_list [30, 40, 50, 60, 70, 80])"

definition SERVICE_SCHEMA_MOTOR_SPEED :: "string \<times> validator" where
  "SERVICE_SCHEMA_MOTOR_SPEED = (ATTR_MOTOR_SPEED, Clamp 200 2000)"

text \<open>\<^verbatim>\<open>SERVICE_TO_METHOD\<close>: the method name, and the schema where one is given.\<close>

fun SERVICE_TO_METHOD :: "service \<Rightarrow> string \<times> (string \<times> validator) option" where
  "SERVICE_TO_METHOD SERVICE_SET_BUZZER_ON = (''async_set_buzzer_on'', None)"
| "SERVICE_TO_METHOD SERVICE_SET_BUZZER_OFF = (''async_set_buzzer_off'', None)"
| "SERVICE_TO_METHOD SERVICE_SET_FAN_LED_ON = (''async_set_led_on'', None)"
| "SERVICE_TO_METHOD SERVICE_SET_FAN_LED_OFF = (''async_set_led_off'', None)"
| "SERVICE_TO_METHOD SERVICE_SET_CHILD_LOCK_ON = (''async_set_child_lock_on'', None)"
| "SERVICE_TO_METHOD SERVICE_SET_CHILD_LOCK_OFF = (''async_set_child_lock_off'', None)"
| "SERVICE_TO_METHOD SERVICE_SET_AUTO_DETECT_ON = (''async_set_auto_detect_on'', None)"
| "SERVICE_TO_METHOD SERVICE_SET_AUTO_DETECT_OFF = (''async_set_auto_detect_off'', None)"
| "SERVICE_TO_METHOD SERVICE_SET_LEARN_MODE_ON = (''async_set_learn_mode_on'', None)"
| "SERVICE_TO_METHOD SERVICE_SET_LEARN_MODE_OFF = (''async_set_learn_mode_off'', None)"
| "SERVICE_TO_METHOD SERVICE_RESET_FILTER = (''async_reset_filter'', None)"
| "SERVICE_TO_METHOD SERVICE_SET_LED_BRIGHTNESS =
    (''async_set_led_brightness'', Some SERVICE_SCHEMA_LED_BRIGHTNESS)"
| "SERVICE_TO_METHOD SERVICE_SET_FAVORITE_LEVEL =
    (''async_set_favorite_level'', Some SERVICE_SCHEMA_FAVORITE_LEVEL)"
| "SERVICE_TO_METHOD SERVICE_SET_FAN_LEVEL =
    (''async_set_fan_level'', Some SERVICE_SCHEMA_FAN_LEVEL)"
| "SERVICE_TO_METHOD SERVICE_SET_VOLUME = (''async_set_volume'', Some SERVICE_SCHEMA_VOLUME)"
| "SERVICE_TO_METHOD SERVICE_SET_EXTRA_FEATURES =
    (''async_set_extra_features'', Some SERVICE_SCHEMA_EXTRA_FEATURES)"
| "SERVICE_TO_METHOD SERVICE_SET_TARGET_HUMIDITY =
    (''async_set_target_humidity'', Some SERVICE_SCHEMA_TARGET_HUMIDITY)"
| "SERVICE_TO_METHOD SERVICE_SET_DRY_ON = (''async_set_dry_on'', None)"
| "SERVICE_TO_METHOD SERVICE_SET_DRY_OFF = (''async_set_dry_off'', None)"
| "SERVICE_TO_METHOD SERVICE_SET_MOTOR_SPEED =
    (''async_set_motor_speed'', Some SERVICE_SCHEMA_MOTOR_SPEED)"

text \<open>
  Modelled from the spec: the host's service registry, which is not among the sources,
  validates the data of a call against the schema registered for the service before the
  handler runs ("validated at the boundary before any downstream call"). A call carries,
  besides the optional entity ids, at most the one value its schema requires: a schema
  refuses a missing required key and a key it does not know.
\<close>

definition validate_data :: "imported \<Rightarrow> service \<Rightarrow> int option \<Rightarrow> int option res" where
  "validate_data c s data =
    (case snd (SERVICE_TO_METHOD s) of
       None \<Rightarrow> (case data of None \<Rightarrow> Return None | Some x \<Rightarrow> Raise Invalid)
     | Some (key, validator) \<Rightarrow>
         (case data of
            None \<Rightarrow> Raise Invalid
          | Some x \<Rightarrow>
              (case validate c validator x of
                 Raise e \<Rightarrow> Raise e
               | Return y \<Rightarrow> Return (Some y))))"

text \<open>
  Modelled from the spec: \<^verbatim>\<open>entity.async_update_ha_state(True)\<close> belongs to the host's
  entity class, which is not among the sources; it requests one fresh poll of the entity,
  and what the poll raises stays inside its own task.
\<close>

definition async_update_ha_state :: "vendor \<Rightarrow> device \<Rightarrow> device" where
  "async_update_ha_state v d = snd (async_update v d)"

text \<open>
  \<^verbatim>\<open>hass.data[DATA_KEY]\<close>: the entities by host, in insertion order. Every host has its
  own hardware, \<open>vs host\<close>.
\<close>

type_synonym registry = "(string \<times> device) list"

text \<open>\<^verbatim>\<open>if entity_ids: ... entity.entity_id in entity_ids ... else: all\<close>, on the entity
  ids as the handler finds them in the data of the call.\<close>

definition targeted :: "string list option \<Rightarrow> device \<Rightarrow> bool" where
  "targeted entity_ids d =
    (case entity_ids of
       None \<Rightarrow> True
     | Some ids \<Rightarrow> (if ids = [] then True else entity_id d \<in> set ids))"

text \<open>
  The loop of \<^verbatim>\<open>async_service_handler\<close> over the entities: an entity without the method
  is passed over; the method is awaited and then the update task of the entity is created;
  what a method raises leaves the loop and the handler. Entities are updated in place.
\<close>

fun handle_entities ::
  "imported \<Rightarrow> (string \<Rightarrow> vendor) \<Rightarrow> string \<Rightarrow> int option \<Rightarrow> string list option \<Rightarrow> registry
    \<Rightarrow> unit res \<times> registry" where
  "handle_entities c vs name params entity_ids [] = (Return (), [])"
| "handle_entities c vs name params entity_ids ((host, entity) # rest) =
    (if \<not> targeted entity_ids entity then
       (let (r, rest1) = handle_entities c vs name params entity_ids rest
        in (r, (host, entity) # rest1))
     else
       (case getattr_method c entity name of
          None \<Rightarrow>
            (let (r, rest1) = handle_entities c vs name params entity_ids rest
             in (r, (host, entity) # rest1))
        | Some entity_method \<Rightarrow>
            (case entity_method (vs host) entity params of
               (Raise e, entity1) \<Rightarrow> (Raise e, (host, entity1) # rest)
             | (Return u, entity1) \<Rightarrow>
                 (let entity2 = async_update_ha_state (vs host) entity1;
                      (r, rest1) = handle_entities c vs name params entity_ids rest
                  in (r, (host, entity2) # rest1)))))"

definition async_service_handler ::
  "imported \<Rightarrow> (string \<Rightarrow> vendor) \<Rightarrow> registry \<Rightarrow> service \<Rightarrow> string list option \<Rightarrow> int option
    \<Rightarrow> unit res \<times> registry" where
  "async_service_handler c vs reg s entity_ids params =
    handle_entities c vs (fst (SERVICE_TO_METHOD s)) params entity_ids reg"

text \<open>
  The body of the loop for one entity, up to the creation of the update task: the lookup of
  the method, and the method when the entity has it.
\<close>

definition invoke :: "imported \<Rightarrow> vendor \<Rightarrow> device \<Rightarrow> string \<Rightarrow> int option \<Rightarrow> unit res \<times> device" where
  "invoke c v d name params =
    (case getattr_method c d name of
       None \<Rightarrow> (Return (), d)
     | Some entity_method \<Rightarrow> entity_method v d params)"

text \<open>One service call on one entity, without the poll that follows: validation, then the
  method.\<close>

definition dispatch :: "imported \<Rightarrow> vendor \<Rightarrow> device \<Rightarrow> service \<Rightarrow> int option \<Rightarrow> unit res \<times> device" where
  "dispatch c v d s data =
    (case validate_data c s data of
       Raise e \<Rightarrow> (Raise e, d)
     | Return params \<Rightarrow> invoke c v d (fst (SERVICE_TO_METHOD s)) params)"

text \<open>The feature flag that the method of a service tests first, in every class that has
  the method.\<close>

fun required_feature :: "service \<Rightarrow> int" where
  "required_feature SERVICE_SET_BUZZER_ON = FEATURE_SET_BUZZER"
| "required_feature SERVICE_SET_BUZZER_OFF = FEATURE_SET_BUZZER"
| "required_feature SERVICE_SET_FAN_LED_ON = FEATURE_SET_LED"
| "required_feature SERVICE_SET_FAN_LED_OFF = FEATURE_SET_LED"
| "required_feature SERVICE_SET_CHILD_LOCK_ON = FEATURE_SET_CHILD_LOCK"
| "required_feature SERVICE_SET_CHILD_LOCK_OFF = FEATURE_SET_CHILD_LOCK"
| "required_feature SERVICE_SET_AUTO_DETECT_ON = FEATURE_SET_AUTO_DETECT"
| "required_feature SERVICE_SET_AUTO_DETECT_OFF = FEATURE_SET_AUTO_DETECT"
| "required_feature SERVICE_SET_LEARN_MODE_ON = FEATURE_SET_LEARN_MODE"
| "required_feature SERVICE_SET_LEARN_MODE_OFF = FEATURE_SET_LEARN_MODE"
| "required_feature SERVICE_RESET_FILTER = FEATURE_RESET_FILTER"
| "required_feature SERVICE_SET_LED_BRIGHTNESS = FEATURE_SET_LED_BRIGHTNESS"
| "required_feature SERVICE_SET_FAVORITE_LEVEL = FEATURE_SET_FAVORITE_LEVEL"
| "required_feature SERVICE_SET_FAN_LEVEL = FEATURE_SET_FAN_LEVEL"
| "required_feature SERVICE_SET_VOLUME = FEATURE_SET_VOLUME"
| "required_feature SERVICE_SET_EXTRA_FEATURES = FEATURE_SET_EXTRA_FEATURES"
| "required_feature SERVICE_SET_TARGET_HUMIDITY = FEATURE_SET_TARGET_HUMIDITY"
| "required_feature SERVICE_SET_DRY_ON = FEATURE_SET_DRY"
| "required_feature SERVICE_SET_DRY_OFF = FEATURE_SET_DRY"
| "required_feature SERVICE_SET_MOTOR_SPEED = FEATURE_SET_MOTOR_SPEED"

text \<open>Scalar normalisation: a member of an enumeration stands for its value.\<close>

fun scalar_of :: "pyval \<Rightarrow> scalar" where
  "scalar_of (Plain x) = x"
| "scalar_of (EnumMember n x) = x"

section \<open>Setup\<close>

datatype vendor_class =
    AirFresh
  | AirHumidifier
  | AirHumidifierMiot
  | AirPurifier
  | AirPurifierMB4
  | AirPurifierMiot

definition startswith :: "string \<Rightarrow> string \<Rightarrow> bool" where
  "startswith s p = (take (length p) s = p)"

text \<open>
  The choice of vendor class and entity class in \<^verbatim>\<open>async_setup_entry\<close>; \<open>None\<close> is the
  branch that logs "Unsupported device found!" and returns. The entity keeps the model of
  the config entry as \<^verbatim>\<open>self._model\<close>.
\<close>

definition async_setup_entry :: "imported \<Rightarrow> string \<Rightarrow> string \<Rightarrow> (vendor_class \<times> device) option" where
  "async_setup_entry c m eid =
    (if m = MODEL_AIRPURIFIER_3C c then
       Some (AirPurifierMB4, entity_init c XiaomiAirPurifierMiot m eid)
     else if m \<in> set (MODELS_PURIFIER_MIOT c) then
       Some (AirPurifierMiot, entity_init c XiaomiAirPurifierMiot m eid)
     else if startswith m ''zhimi.airpurifier.'' then
       Some (AirPurifier, entity_init c XiaomiAirPurifier m eid)
     else if m \<in> set (MODELS_HUMIDIFIER_MIOT c) then
       Some (AirHumidifierMiot, entity_init c XiaomiAirHumidifierMiot m eid)
     else if startswith m ''zhimi.humidifier.'' then
       Some (AirHumidifier, entity_init c XiaomiAirHumidifier m eid)
     else if startswith m ''zhimi.airfresh.'' then
       Some (AirFresh, entity_init c XiaomiAirFresh m eid)
     else None)"

section \<open>An instance of the imported names\<close>

text \<open>
  Values for the imported names, to run the model on concrete inputs: model strings of the
  three families, the speed names, and enumerations with the members the code refers to.
\<close>

definition example_imports :: imported where
  "example_imports =
    \<lparr>MODEL_AIRHUMIDIFIER_CA1 = ''zhimi.humidifier.ca1'',
     MODEL_AIRHUMIDIFIER_CA4 = ''zhimi.humidifier.ca4'',
     MODEL_AIRHUMIDIFIER_CB1 = ''zhimi.humidifier.cb1'',
     MODEL_AIRPURIFIER_2S = ''zhimi.airpurifier.mc1'',
     MODEL_AIRPURIFIER_3 = ''zhimi.airpurifier.ma4'',
     MODEL_AIRPURIFIER_3C = ''zhimi.airpurifier.mb4'',
     MODEL_AIRPURIFIER_3H = ''zhimi.airpurifier.mb3'',
     MODEL_AIRPURIFIER_PRO = ''zhimi.airpurifier.v6'',
     MODEL_AIRPURIFIER_PRO_V7 = ''zhimi.airpurifier.v7'',
     MODEL_AIRPURIFIER_V3 = ''zhimi.airpurifier.v3'',
     MODELS_HUMIDIFIER_MIOT = [''zhimi.humidifier.ca4''],
     MODELS_PURIFIER_MIOT = [''zhimi.airpurifier.ma4'', ''zhimi.airpurifier.mb3''],
     SPEED_LOW = ''low'',
     SPEED_MEDIUM = ''medium'',
     SPEED_HIGH = ''high'',
     SUPPORT_SET_SPEED = 1,
     ATTR_MODE = ''mode'',
     ATTR_TEMPERATURE = ''temperature'',
     positive_int = (\<lambda>x. if 0 \<le> x then Some x else None),
     member_names =
       (\<lambda>e. case e of
          AirfreshOperationMode \<Rightarrow>
            [''Auto'', ''Silent'', ''Interval'', ''Low'', ''Middle'', ''Strong'']
        | AirhumidifierOperationMode \<Rightarrow> [''Silent'', ''Medium'', ''High'', ''Auto'', ''Strong'']
        | AirhumidifierMiotOperationMode \<Rightarrow> [''Auto'', ''Low'', ''Mid'', ''High'']
        | AirpurifierOperationMode \<Rightarrow>
            [''Auto'', ''Silent'', ''Favorite'', ''Idle'', ''Medium'', ''High'', ''Strong'']
        | AirpurifierMiotOperationMode \<Rightarrow> [''Auto'', ''Silent'', ''Favorite'', ''Fan'']),
     member_values = (\<lambda>e. [0, 1, 2])\<rparr>"


text \<open>Hardware that answers \<^verbatim>\<open>["ok"]\<close> to every command and reports a status with the
  given attributes, and hardware that cannot be reached.\<close>

definition ok_vendor :: "device_status \<Rightarrow> vendor" where
  "ok_vendor st = \<lparr>answer = (\<lambda>func. Returned SUCCESS), status_answer = Returned st\<rparr>"

definition unreachable_vendor :: vendor where
  "unreachable_vendor =
    \<lparr>answer = (\<lambda>func. DeviceException ''timeout''),
     status_answer = DeviceException ''timeout''\<rparr>"


text \<open>A status object that has every attribute, each with the value \<^verbatim>\<open>None\<close>.\<close>

definition blank_status :: "bool \<Rightarrow> device_status" where
  "blank_status b = \<lparr>is_on = b, attribute = (\<lambda>name. Some (Plain PyNone))\<rparr>"

text \<open>Entities as setup creates them under these names.\<close>

definition fresh_air_entity :: device where
  "fresh_air_entity = entity_init example_imports XiaomiAirFresh ''zhimi.airfresh.va2'' ''fan.fresh''"

definition purifier_3_entity :: device where
  "purifier_3_entity =
    entity_init example_imports XiaomiAirPurifierMiot ''zhimi.airpurifier.ma4'' ''fan.purifier3''"

definition purifier_entity :: device where
  "purifier_entity =
    entity_init example_imports XiaomiAirPurifier ''zhimi.airpurifier.m1'' ''fan.purifier''"

definition purifier_pro_entity :: device where
  "purifier_pro_entity =
    entity_init example_imports XiaomiAirPurifier ''zhimi.airpurifier.v6'' ''fan.purifier_pro''"

definition humidifier_miot_entity :: device where
  "humidifier_miot_entity =
    entity_init example_imports XiaomiAirHumidifierMiot ''zhimi.humidifier.ca4'' ''fan.humidifier''"

text \<open>Reading the fields of a table directly off the status, each value normalised.\<close>

definition read_all :: "device_status \<Rightarrow> attr_table \<Rightarrow> (string \<times> pyval) list" where
  "read_all st items = map (\<lambda>(key, attr). (key, Plain (scalar_of (the (attribute st attr))))) items"

text \<open>A status whose mode and led brightness are members of enumerations, and a status
  of a firmware that has no \<^verbatim>\<open>co2\<close> attribute.\<close>

definition enum_status :: device_status where
  "enum_status =
    \<lparr>is_on = True,
     attribute =
       (\<lambda>name. if name = ''mode'' then Some (EnumMember ''Auto'' (PyStr ''auto''))
              else if name = ''led_brightness'' then Some (EnumMember ''Dim'' (PyInt 1))
              else if name = ''co2'' then Some (Plain PyNone)
              else Some (Plain (PyInt 7)))\<rparr>"


text \<open>Three managed entities, and hardware of which the second cannot be reached.\<close>

definition three_targets :: registry where
  "three_targets =
    [(''192.168.1.11'', fresh_air_entity),
     (''192.168.1.12'', purifier_entity),
     (''192.168.1.13'', humidifier_miot_entity)]"

definition all_reachable :: "string \<Rightarrow> vendor" where
  "all_reachable = (\<lambda>host. ok_vendor (blank_status True))"

definition second_unreachable :: "string \<Rightarrow> vendor" where
  "second_unreachable = all_reachable(''192.168.1.12'' := unreachable_vendor)"

text \<open>What the handler does to one entity that is a target and has the method: the
  method, then the poll.\<close>

definition method_then_poll :: "imported \<Rightarrow> string \<Rightarrow> int option \<Rightarrow> vendor \<Rightarrow> device \<Rightarrow> device" where
  "method_then_poll c name params v entity =
    async_update_ha_state v (snd (call_method c name v entity params))"

section \<open>Collections of defining equations\<close>

lemmas FEATURE_defs =
  FEATURE_SET_BUZZER_def FEATURE_SET_LED_def FEATURE_SET_CHILD_LOCK_def
  FEATURE_SET_LED_BRIGHTNESS_def FEATURE_SET_FAVORITE_LEVEL_def FEATURE_SET_AUTO_DETECT_def
  FEATURE_SET_LEARN_MODE_def FEATURE_SET_VOLUME_def FEATURE_RESET_FILTER_def
  FEATURE_SET_EXTRA_FEATURES_def FEATURE_SET_TARGET_HUMIDITY_def FEATURE_SET_DRY_def
  FEATURE_SET_FAN_LEVEL_def FEATURE_SET_MOTOR_SPEED_def

lemmas FEATURE_FLAGS_defs =
  FEATURE_FLAGS_AIRPURIFIER_def FEATURE_FLAGS_AIRPURIFIER_PRO_def
  FEATURE_FLAGS_AIRPURIFIER_PRO_V7_def FEATURE_FLAGS_AIRPURIFIER_2S_def
  FEATURE_FLAGS_AIRPURIFIER_3_def FEATURE_FLAGS_AIRPURIFIER_3C_def
  FEATURE_FLAGS_AIRPURIFIER_V3_def FEATURE_FLAGS_AIRHUMIDIFIER_def
  FEATURE_FLAGS_AIRHUMIDIFIER_CA_AND_CB_def FEATURE_FLAGS_AIRHUMIDIFIER_CA4_def
  FEATURE_FLAGS_AIRFRESH_def

lemmas SERVICE_SCHEMA_defs =
  SERVICE_SCHEMA_LED_BRIGHTNESS_def SERVICE_SCHEMA_FAVORITE_LEVEL_def
  SERVICE_SCHEMA_FAN_LEVEL_def SERVICE_SCHEMA_VOLUME_def SERVICE_SCHEMA_EXTRA_FEATURES_def
  SERVICE_SCHEMA_TARGET_HUMIDITY_def SERVICE_SCHEMA_MOTOR_SPEED_def

lemmas method_defs =
  async_set_buzzer_on_def async_set_buzzer_off_def async_set_child_lock_on_def
  async_set_child_lock_off_def async_set_led_on_def async_set_led_off_def
  async_set_led_brightness_def set_led_brightness_in_def async_set_favorite_level_def
  async_set_fan_level_def async_set_auto_detect_on_def async_set_auto_detect_off_def
  async_set_learn_mode_on_def async_set_learn_mode_off_def async_set_volume_def
  async_set_extra_features_def async_reset_filter_def async_set_target_humidity_def
  async_set_dry_on_def async_set_dry_off_def async_set_motor_speed_def

lemmas class_method_defs =
  methods_of_def generic_methods_def purifier_methods_def humidifier_methods_def
  humidifier_miot_methods_def airfresh_methods_def

section \<open>Basic facts\<close>

lemma try_command_raises:
  "answer v func = DeviceException exc \<Longrightarrow>
   try_command v d msg func =
     (False,
      if available d
      then d\<lparr>vendor_calls := vendor_calls d @ [func],
             error_log := error_log d @ [(msg, exc)], available := False\<rparr>
      else d\<lparr>vendor_calls := vendor_calls d @ [func]\<rparr>)"
  by (simp add: try_command_def Let_def)


lemma fresh_air_fields:
  "device_features fresh_air_entity = FEATURE_FLAGS_AIRFRESH"
  "cls fresh_air_entity = XiaomiAirFresh"
  "available fresh_air_entity = False"
  "skip_update fresh_air_entity = False"
  "error_log fresh_air_entity = []"
  "vendor_calls fresh_air_entity = []"
  "state fresh_air_entity = None"
  by (simp_all add: fresh_air_entity_def entity_init_def XiaomiAirFresh_init_def
      XiaomiGenericDevice_init_def Let_def)

lemma purifier_3_fields:
  "device_features purifier_3_entity = FEATURE_FLAGS_AIRPURIFIER_3"
  "cls purifier_3_entity = XiaomiAirPurifierMiot"
  "available purifier_3_entity = False"
  "skip_update purifier_3_entity = False"
  "error_log purifier_3_entity = []"
  "vendor_calls purifier_3_entity = []"
  "state purifier_3_entity = None"
  by (simp_all add: purifier_3_entity_def entity_init_def XiaomiAirPurifier_init_def
      XiaomiGenericDevice_init_def Let_def example_imports_def)

lemma purifier_fields:
  "device_features purifier_entity = FEATURE_FLAGS_AIRPURIFIER"
  "cls purifier_entity = XiaomiAirPurifier"
  "available purifier_entity = False"
  "skip_update purifier_entity = False"
  "error_log purifier_entity = []"
  "vendor_calls purifier_entity = []"
  "state purifier_entity = None"
  by (simp_all add: purifier_entity_def entity_init_def XiaomiAirPurifier_init_def
      XiaomiGenericDevice_init_def Let_def example_imports_def)

lemma humidifier_miot_fields:
  "device_features humidifier_miot_entity = FEATURE_FLAGS_AIRHUMIDIFIER_CA4"
  "cls humidifier_miot_entity = XiaomiAirHumidifierMiot"
  "available humidifier_miot_entity = False"
  "skip_update humidifier_miot_entity = False"
  "error_log humidifier_miot_entity = []"
  "vendor_calls humidifier_miot_entity = []"
  "state humidifier_miot_entity = None"
  by (simp_all add: humidifier_miot_entity_def entity_init_def XiaomiAirHumidifier_init_def
      XiaomiGenericDevice_init_def Let_def example_imports_def)

lemma example_imports_simps:
  "SPEED_LOW example_imports = ''low''"
  "SPEED_MEDIUM example_imports = ''medium''"
  "SPEED_HIGH example_imports = ''high''"
  "SUPPORT_SET_SPEED example_imports = 1"
  "member_values example_imports e = [0, 1, 2]"
  "member_names example_imports AirpurifierOperationMode =
     [''Auto'', ''Silent'', ''Favorite'', ''Idle'', ''Medium'', ''High'', ''Strong'']"
  by (simp_all add: example_imports_def)


lemma reverse_mode_mapping_lookup:
  "map_of (REVERSE_MODE_MAPPING c) speed =
    (if speed = SPEED_HIGH c then Some ''High''
     else if speed = SPEED_MEDIUM c then Some ''Mid''
     else if speed = SPEED_LOW c then Some ''Low'' else None)"
  by (simp add: REVERSE_MODE_MAPPING_def MODE_MAPPING_def dict_literal_def AList.update_conv')


lemma entity_init_cls [simp]: "cls (entity_init c k m eid) = k"
  by (cases k)
     (simp_all add: entity_init_def XiaomiAirPurifier_init_def XiaomiAirHumidifier_init_def
        XiaomiAirFresh_init_def XiaomiGenericDevice_init_def Let_def)

lemma entity_init_model [simp]: "model (entity_init c k m eid) = m"
  by (cases k)
     (simp_all add: entity_init_def XiaomiAirPurifier_init_def XiaomiAirHumidifier_init_def
        XiaomiAirFresh_init_def XiaomiGenericDevice_init_def Let_def)

lemma fold_update_other:
  "key \<notin> fst ` set new \<Longrightarrow>
   map_of (fold (\<lambda>(k, v). AList.update k v) new d) key = map_of d key"
  by (induction new arbitrary: d) (auto simp add: AList.update_conv')

lemma fold_update_member:
  "distinct (map fst new) \<Longrightarrow> (key, val) \<in> set new \<Longrightarrow>
   map_of (fold (\<lambda>(k, v). AList.update k v) new d) key = Some val"
proof (induction new arbitrary: d)
  case Nil
  then show ?case by simp
next
  case (Cons x xs)
  show ?case
  proof (cases "x = (key, val)")
    case True
    with Cons.prems have "key \<notin> fst ` set xs" by auto
    with True show ?thesis by (simp add: fold_update_other AList.update_conv')
  next
    case False
    with Cons.prems have "distinct (map fst xs)" "(key, val) \<in> set xs" by auto
    from Cons.IH [OF this] show ?thesis by simp
  qed
qed

lemma set_update_subset: "set (AList.update k v al) \<subseteq> insert (k, v) (set al)"
  by (induction al) auto

lemma set_fold_update_subset:
  "set (fold (\<lambda>(k, v). AList.update k v) new d) \<subseteq> set d \<union> set new"
proof (induction new arbitrary: d)
  case Nil
  then show ?case by simp
next
  case (Cons x xs)
  obtain k v where x: "x = (k, v)" by (cases x)
  from Cons.IH [of "AList.update k v d"] set_update_subset [of k v d]
  show ?case unfolding x by auto
qed

lemma distinct_fold_update:
  "distinct (map fst d) \<Longrightarrow> distinct (map fst (fold (\<lambda>(k, v). AList.update k v) new d))"
  by (induction new arbitrary: d) (auto simp add: AList.distinct_update)

lemma distinct_dict_literal: "distinct (map fst (dict_literal items))"
  by (simp add: dict_literal_def distinct_fold_update)

lemma extract_value_present:
  "attribute st attr = Some v \<Longrightarrow>
   extract_value_from_attribute st attr = Return (Plain (scalar_of v))"
  by (cases v) (simp_all add: extract_value_from_attribute_def)

lemma extract_value_absent:
  "attribute st attr = None \<Longrightarrow>
   extract_value_from_attribute st attr = Raise (AttributeError attr)"
  by (simp add: extract_value_from_attribute_def)

lemma extract_all_present:
  "\<forall>(key, attr) \<in> set items. attribute st attr \<noteq> None \<Longrightarrow>
   extract_all st items acc = Return (fold (\<lambda>(k, v). AList.update k v) (read_all st items) acc)"
proof (induction items arbitrary: acc)
  case Nil
  then show ?case by (simp add: read_all_def)
next
  case (Cons x xs)
  obtain key attr where x: "x = (key, attr)" by (cases x)
  from Cons.prems x obtain v where v: "attribute st attr = Some v" by auto
  from Cons.prems have "\<forall>(key, attr) \<in> set xs. attribute st attr \<noteq> None" by simp
  from Cons.IH [OF this] show ?case
    unfolding x by (simp add: extract_value_present [OF v] v read_all_def)
qed

lemma extract_all_absent:
  "\<exists>(key, attr) \<in> set items. attribute st attr = None \<Longrightarrow>
   \<exists>a. extract_all st items acc = Raise (AttributeError a) \<and> attribute st a = None"
proof (induction items arbitrary: acc)
  case Nil
  then show ?case by simp
next
  case (Cons x xs)
  obtain key attr where x: "x = (key, attr)" by (cases x)
  show ?case
  proof (cases "attribute st attr")
    case None
    then show ?thesis unfolding x by (auto simp add: extract_value_absent)
  next
    case (Some v)
    with Cons.prems x have "\<exists>(key, attr) \<in> set xs. attribute st attr = None" by auto
    from Cons.IH [OF this] show ?thesis
      unfolding x by (simp add: extract_value_present [OF Some])
  qed
qed

lemma async_update_returns:
  "\<not> skip_update d \<Longrightarrow> status_answer v = Returned st \<Longrightarrow>
   \<forall>(key, attr) \<in> set (available_attributes d). attribute st attr \<noteq> None \<Longrightarrow>
   async_update v d =
     (Return (),
      d\<lparr>vendor_calls := vendor_calls d @ [call_status], available := True,
        state := Some (is_on st),
        state_attrs := dict_update (state_attrs d)
          (dict_literal (read_all st (available_attributes d)))\<rparr>)"
  by (simp add: async_update_def Let_def extract_all_present dict_literal_def)

lemma async_update_attribute_error:
  "\<not> skip_update d \<Longrightarrow> status_answer v = Returned st \<Longrightarrow>
   \<exists>(key, attr) \<in> set (available_attributes d). attribute st attr = None \<Longrightarrow>
   \<exists>a. async_update v d =
     (Raise (AttributeError a),
      d\<lparr>vendor_calls := vendor_calls d @ [call_status], available := True,
        state := Some (is_on st)\<rparr>)"
  using extract_all_absent [of "available_attributes d" st "[]"]
  by (auto simp add: async_update_def Let_def)

lemma roundtrip_general:
  assumes dist: "distinct (map fst (available_attributes d))"
    and plain: "\<forall>(key, value) \<in> set (state_attrs d). \<exists>x. value = Plain x"
    and run: "\<not> skip_update d" "status_answer v = Returned st"
    and present: "\<forall>(key, attr) \<in> set (available_attributes d). attribute st attr \<noteq> None"
  shows "fst (async_update v d) = Return ()"
    and "\<forall>(key, attr) \<in> set (available_attributes d).
           map_of (state_attrs (snd (async_update v d))) key
             = Some (Plain (scalar_of (the (attribute st attr))))"
    and "\<forall>(key, value) \<in> set (state_attrs (snd (async_update v d))). \<exists>x. value = Plain x"
proof -
  let ?items = "read_all st (available_attributes d)"
  let ?new = "dict_literal ?items"
  note upd = async_update_returns [OF run present]
  show "fst (async_update v d) = Return ()" by (simp add: upd)
  have keys: "map fst ?items = map fst (available_attributes d)"
    by (simp add: read_all_def case_prod_unfold comp_def)
  show "\<forall>(key, attr) \<in> set (available_attributes d).
           map_of (state_attrs (snd (async_update v d))) key
             = Some (Plain (scalar_of (the (attribute st attr))))"
  proof (clarify)
    fix key attr
    assume mem: "(key, attr) \<in> set (available_attributes d)"
    then have "(key, Plain (scalar_of (the (attribute st attr)))) \<in> set ?items"
      by (force simp add: read_all_def)
    moreover have "distinct (map fst ?items)" using dist keys by simp
    ultimately have "map_of ?new key = Some (Plain (scalar_of (the (attribute st attr))))"
      unfolding dict_literal_def by (rule fold_update_member [rotated])
    then have "(key, Plain (scalar_of (the (attribute st attr)))) \<in> set ?new"
      by (rule map_of_SomeD)
    with distinct_dict_literal [of ?items]
    have "map_of (dict_update (state_attrs d) ?new) key
            = Some (Plain (scalar_of (the (attribute st attr))))"
      unfolding dict_update_def by (rule fold_update_member)
    then show "map_of (state_attrs (snd (async_update v d))) key
             = Some (Plain (scalar_of (the (attribute st attr))))"
      by (simp add: upd)
  qed
  have "set ?new \<subseteq> set ?items"
    using set_fold_update_subset [of ?items "[]"] by (simp add: dict_literal_def)
  moreover have "set (dict_update (state_attrs d) ?new) \<subseteq> set (state_attrs d) \<union> set ?new"
    unfolding dict_update_def by (rule set_fold_update_subset)
  moreover have "\<forall>(key, value) \<in> set ?items. \<exists>x. value = Plain x"
    by (auto simp add: read_all_def)
  ultimately have "\<forall>(key, value) \<in> set (dict_update (state_attrs d) ?new). \<exists>x. value = Plain x"
    using plain by blast
  then show "\<forall>(key, value) \<in> set (state_attrs (snd (async_update v d))). \<exists>x. value = Plain x"
    by (simp add: upd)
qed

lemma example_models_wf:
  "\<forall>x \<in> set (MODELS_HUMIDIFIER_MIOT example_imports).
     x \<noteq> MODEL_AIRPURIFIER_3C example_imports \<and> x \<notin> set (MODELS_PURIFIER_MIOT example_imports) \<and>
     \<not> startswith x ''zhimi.airpurifier.''"
  by (simp add: example_imports_def startswith_def)

lemma purifier_setup:
  "async_setup_entry example_imports ''zhimi.airpurifier.m1'' ''fan.purifier''
    = Some (AirPurifier, purifier_entity)"
  by (simp add: async_setup_entry_def purifier_entity_def example_imports_def startswith_def)

lemma tables_distinct:
  "distinct (map fst (AVAILABLE_ATTRIBUTES_AIRPURIFIER c))"
  "distinct (map fst (AVAILABLE_ATTRIBUTES_AIRPURIFIER_PRO c))"
  "distinct (map fst (AVAILABLE_ATTRIBUTES_AIRPURIFIER_PRO_V7 c))"
  "distinct (map fst (AVAILABLE_ATTRIBUTES_AIRPURIFIER_2S c))"
  "distinct (map fst (AVAILABLE_ATTRIBUTES_AIRPURIFIER_3 c))"
  "distinct (map fst (AVAILABLE_ATTRIBUTES_AIRPURIFIER_3C c))"
  "distinct (map fst (AVAILABLE_ATTRIBUTES_AIRPURIFIER_V3 c))"
  "distinct (map fst (AVAILABLE_ATTRIBUTES_AIRHUMIDIFIER c))"
  "distinct (map fst (AVAILABLE_ATTRIBUTES_AIRHUMIDIFIER_CA_AND_CB c))"
  "distinct (map fst (AVAILABLE_ATTRIBUTES_AIRHUMIDIFIER_CA4 c))"
  "distinct (map fst (AVAILABLE_ATTRIBUTES_AIRFRESH c))"
  unfolding AVAILABLE_ATTRIBUTES_AIRPURIFIER_def AVAILABLE_ATTRIBUTES_AIRPURIFIER_PRO_def
    AVAILABLE_ATTRIBUTES_AIRPURIFIER_PRO_V7_def AVAILABLE_ATTRIBUTES_AIRPURIFIER_2S_def
    AVAILABLE_ATTRIBUTES_AIRPURIFIER_3_def AVAILABLE_ATTRIBUTES_AIRPURIFIER_3C_def
    AVAILABLE_ATTRIBUTES_AIRPURIFIER_V3_def AVAILABLE_ATTRIBUTES_AIRHUMIDIFIER_def
    AVAILABLE_ATTRIBUTES_AIRHUMIDIFIER_CA_AND_CB_def AVAILABLE_ATTRIBUTES_AIRHUMIDIFIER_CA4_def
    AVAILABLE_ATTRIBUTES_AIRFRESH_def
  by (rule distinct_dict_literal)+

lemma entity_init_table_distinct:
  "distinct (map fst (available_attributes (entity_init c k m eid)))"
  by (cases k)
     (simp_all add: entity_init_def XiaomiAirPurifier_init_def XiaomiAirHumidifier_init_def
        XiaomiAirFresh_init_def XiaomiGenericDevice_init_def Let_def tables_distinct)

lemma fresh_air_table:
  "available_attributes fresh_air_entity =
    [(''temperature'', ''temperature''), (''aqi'', ''aqi''), (''average_aqi'', ''average_aqi''),
     (''co2'', ''co2''), (''humidity'', ''humidity''), (''mode'', ''mode''), (''led'', ''led''),
     (''led_brightness'', ''led_brightness''), (''buzzer'', ''buzzer''),
     (''child_lock'', ''child_lock''), (''filter_life_remaining'', ''filter_life_remaining''),
     (''filter_hours_used'', ''filter_hours_used''), (''use_time'', ''use_time''),
     (''motor_speed'', ''motor_speed''), (''extra_features'', ''extra_features'')]"
  by (simp add: fresh_air_entity_def entity_init_def XiaomiAirFresh_init_def
      XiaomiGenericDevice_init_def Let_def AVAILABLE_ATTRIBUTES_AIRFRESH_def dict_literal_def
      example_imports_def)

lemma fresh_air_attrs:
  "state_attrs fresh_air_entity =
    [(''model'', Plain (PyStr ''zhimi.airfresh.va2'')),
     (''temperature'', Plain PyNone), (''aqi'', Plain PyNone), (''average_aqi'', Plain PyNone),
     (''co2'', Plain PyNone), (''humidity'', Plain PyNone), (''mode'', Plain PyNone),
     (''led'', Plain PyNone), (''led_brightness'', Plain PyNone), (''buzzer'', Plain PyNone),
     (''child_lock'', Plain PyNone), (''filter_life_remaining'', Plain PyNone),
     (''filter_hours_used'', Plain PyNone), (''use_time'', Plain PyNone),
     (''motor_speed'', Plain PyNone), (''extra_features'', Plain PyNone)]"
  by (simp add: fresh_air_entity_def entity_init_def XiaomiAirFresh_init_def
      XiaomiGenericDevice_init_def Let_def AVAILABLE_ATTRIBUTES_AIRFRESH_def dict_literal_def
      dict_update_def attrs_none_def example_imports_def)

lemma call_method_outcome:
  "fst (call_method c name v d arg) = fst (call_method c name v' d arg)"
  by (cases "cls d") (simp_all add: call_method_def method_defs command_def)

lemma handle_entities_isolated:
  assumes same: "\<forall>h. h \<noteq> bad \<longrightarrow> vs h = vs' h"
  shows "fst (handle_entities c vs name params ids reg) =
           fst (handle_entities c vs' name params ids reg)
         \<and> list_all2 (\<lambda>(h, e) (h', e'). h = h' \<and> (h \<noteq> bad \<longrightarrow> e = e'))
             (snd (handle_entities c vs name params ids reg))
             (snd (handle_entities c vs' name params ids reg))"
proof (induction reg)
  case Nil
  show ?case by simp
next
  case (Cons x reg)
  obtain host entity where x: "x = (host, entity)" by (cases x)
  let ?R = "\<lambda>(h, e) (h', e'). h = h' \<and> (h \<noteq> bad \<longrightarrow> e = e')"
  have refl: "list_all2 ?R reg reg" by (rule list.rel_refl) auto
  show ?case
  proof (cases "targeted ids entity \<and> name \<in> set (methods_of (cls entity))")
    case False
    with Cons.IH show ?thesis
      unfolding x by (auto simp add: getattr_method_def case_prod_unfold Let_def)
  next
    case True
    have out: "fst (call_method c name (vs host) entity params) =
        fst (call_method c name (vs' host) entity params)" by (rule call_method_outcome)
    have eq: "host \<noteq> bad \<Longrightarrow> vs host = vs' host" using same by simp
    show ?thesis
    proof (cases "fst (call_method c name (vs host) entity params)")
      case (Raise e)
      with out have "fst (call_method c name (vs' host) entity params) = Raise e" by simp
      with Raise True refl eq show ?thesis
        unfolding x
        by (cases "call_method c name (vs host) entity params";
            cases "call_method c name (vs' host) entity params")
           (auto simp add: getattr_method_def)
    next
      case (Return u)
      with out have "fst (call_method c name (vs' host) entity params) = Return u" by simp
      with Return True Cons.IH eq show ?thesis
        unfolding x
        by (cases "call_method c name (vs host) entity params";
            cases "call_method c name (vs' host) entity params")
           (auto simp add: getattr_method_def case_prod_unfold Let_def)
    qed
  qed
qed

lemma call_method_returns:
  "name \<noteq> ''async_set_led_brightness'' \<or> (\<forall>e. default 2 arg \<in> set (member_values c e)) \<Longrightarrow>
   fst (call_method c name v d arg) = Return ()"
  by (cases "cls d") (auto simp add: call_method_def method_defs command_def)

lemma handle_entities_map:
  assumes "name \<noteq> ''async_set_led_brightness'' \<or> (\<forall>e. default 2 params \<in> set (member_values c e))"
  shows "handle_entities c vs name params ids reg =
    (Return (),
     map (\<lambda>(host, entity).
            if targeted ids entity \<and> name \<in> set (methods_of (cls entity))
            then (host, method_then_poll c name params (vs host) entity)
            else (host, entity)) reg)"
proof (induction reg)
  case Nil
  show ?case by simp
next
  case (Cons x reg)
  obtain host entity where x: "x = (host, entity)" by (cases x)
  from call_method_returns [OF assms, of "vs host" entity]
  obtain entity1 where m: "call_method c name (vs host) entity params = (Return (), entity1)"
    by (cases "call_method c name (vs host) entity params") auto
  show ?case
    unfolding x using Cons.IH m
    by (simp add: getattr_method_def method_then_poll_def)
qed

lemma async_update_calls:
  "\<not> skip_update d \<Longrightarrow> vendor_calls (snd (async_update v d)) = vendor_calls d @ [call_status]"
  by (simp add: async_update_def Let_def split: reply.splits res.splits)

lemma async_update_available:
  "\<not> skip_update d \<Longrightarrow>
   available (snd (async_update v d)) = (\<exists>st. status_answer v = Returned st)"
  by (simp add: async_update_def Let_def split: reply.splits res.splits)

lemma title_fan: "title ''fan'' = ''Fan''"
  by (simp add: title_def ascii_lowercase_def ascii_uppercase_def to_upper_def to_lower_def)

lemma title_strong: "title ''strong'' = ''Strong''"
  by (simp add: title_def ascii_lowercase_def ascii_uppercase_def to_upper_def to_lower_def)

lemma purifier_speed_list: "speed_list purifier_entity = [''Auto'', ''Silent'', ''Favorite'', ''Idle'']"
  by (simp add: purifier_entity_def entity_init_def XiaomiAirPurifier_init_def
      XiaomiGenericDevice_init_def Let_def example_imports_def OPERATION_MODES_AIRPURIFIER_def)




section \<open>Capability gate\<close>

text \<open>
  Claim C1. Whatever the class and the feature bits of an entity: when the bits do not
  include the flag a named action requires, invoking the action on the entity (the lookup
  of the method and, where the class has it, the method) returns normally and leaves the
  entity as it was, so no vendor call is issued and nothing is logged. This holds for
  every parameter value. A class that does not have the method at all, as the fresh-air
  class for the favorite level, is passed over by the lookup.
\<close>

theorem capability_gate:
  "device_features d AND required_feature s = 0 \<Longrightarrow>
   invoke c v d (fst (SERVICE_TO_METHOD s)) params = (Return (), d)"
  by (cases s; cases "cls d")
     (simp_all add: invoke_def getattr_method_def call_method_def method_defs class_method_defs)

theorem capability_gate_witness:
  "device_features fresh_air_entity AND required_feature SERVICE_SET_FAVORITE_LEVEL = 0
   \<and> invoke example_imports (ok_vendor (blank_status True)) fresh_air_entity
        (fst (SERVICE_TO_METHOD SERVICE_SET_FAVORITE_LEVEL)) (Some 5) = (Return (), fresh_air_entity)
   \<and> fst (SERVICE_TO_METHOD SERVICE_SET_VOLUME) \<in> set (methods_of (cls purifier_3_entity))
   \<and> device_features purifier_3_entity AND required_feature SERVICE_SET_VOLUME = 0
   \<and> invoke example_imports (ok_vendor (blank_status True)) purifier_3_entity
        (fst (SERVICE_TO_METHOD SERVICE_SET_VOLUME)) (Some 50) = (Return (), purifier_3_entity)"
proof -
  have h: "device_features fresh_air_entity AND required_feature SERVICE_SET_FAVORITE_LEVEL = 0"
    by (simp add: fresh_air_fields FEATURE_FLAGS_defs FEATURE_defs)
  have g: "device_features purifier_3_entity AND required_feature SERVICE_SET_VOLUME = 0"
    by (simp add: purifier_3_fields FEATURE_FLAGS_defs FEATURE_defs)
  have m: "fst (SERVICE_TO_METHOD SERVICE_SET_VOLUME) \<in> set (methods_of (cls purifier_3_entity))"
    by (simp add: purifier_3_fields class_method_defs)
  from capability_gate [OF h] capability_gate [OF g] h g m show ?thesis by simp
qed

section \<open>Availability and logging\<close>

text \<open>
  Claim C3. A command whose vendor call raises the device exception leaves the entity
  unavailable, and writes exactly one error line if the entity was available before and
  none if it was not. The same holds for a poll (one that is not skipped) whose status
  call raises. A poll whose status call returns makes the entity available and writes
  nothing. So a failure logs only when the entity was available immediately before it.
\<close>

theorem failure_logs_once:
  "(answer v func = DeviceException exc \<longrightarrow>
      \<not> available (snd (try_command v d msg func)) \<and>
      error_log (snd (try_command v d msg func)) =
        error_log d @ (if available d then [(msg, exc)] else []))
   \<and> (\<not> skip_update d1 \<and> status_answer v1 = DeviceException exc1 \<longrightarrow>
      \<not> available (snd (async_update v1 d1)) \<and>
      error_log (snd (async_update v1 d1)) =
        error_log d1 @
          (if available d1 then [(''Got exception while fetching the state: %s'', exc1)] else []))
   \<and> (\<not> skip_update d2 \<and> status_answer v2 = Returned st \<longrightarrow>
      available (snd (async_update v2 d2)) \<and>
      error_log (snd (async_update v2 d2)) = error_log d2)"
  by (auto simp add: try_command_raises async_update_def Let_def split: res.splits)

theorem failure_logs_once_witness:
  "answer unreachable_vendor call_on = DeviceException ''timeout''
   \<and> available (fresh_air_entity\<lparr>available := True\<rparr>)
   \<and> \<not> available (snd (try_command unreachable_vendor (fresh_air_entity\<lparr>available := True\<rparr>)
          ''Turning the miio device on failed.'' call_on))
   \<and> error_log (snd (try_command unreachable_vendor (fresh_air_entity\<lparr>available := True\<rparr>)
          ''Turning the miio device on failed.'' call_on))
       = [(''Turning the miio device on failed.'', ''timeout'')]
   \<and> \<not> skip_update fresh_air_entity \<and> status_answer unreachable_vendor = DeviceException ''timeout''
   \<and> \<not> available fresh_air_entity
   \<and> \<not> available (snd (async_update unreachable_vendor fresh_air_entity))
   \<and> error_log (snd (async_update unreachable_vendor fresh_air_entity)) = []
   \<and> status_answer (ok_vendor (blank_status True)) = Returned (blank_status True)
   \<and> available (snd (async_update (ok_vendor (blank_status True)) fresh_air_entity))
   \<and> error_log (snd (async_update (ok_vendor (blank_status True)) fresh_air_entity)) = []"
  using failure_logs_once [of unreachable_vendor call_on "''timeout''"
      "fresh_air_entity\<lparr>available := True\<rparr>" "''Turning the miio device on failed.''"
      fresh_air_entity unreachable_vendor "''timeout''"
      fresh_air_entity "ok_vendor (blank_status True)" "blank_status True"]
  by (simp add: unreachable_vendor_def ok_vendor_def fresh_air_fields)

section \<open>The success token\<close>



section \<open>Speed names\<close>

text \<open>
  Claim C10, as stated, fails in its second half: on a class other than the MiOT
  humidifier, with speed support present, a speed whose title-cased form is no member of
  the operation-mode enumeration is neither resolved nor gated. The plain purifier raises
  \<^verbatim>\<open>KeyError\<close> for "fan", as the MiOT humidifier does for an unknown name.
\<close>

theorem other_class_key_error_counterexample:
  "cls purifier_entity = XiaomiAirPurifier
   \<and> ascii_only ''fan''
   \<and> supported_features example_imports purifier_entity AND SUPPORT_SET_SPEED example_imports = 1
   \<and> title ''fan'' \<notin> set (speed_list purifier_entity)
   \<and> title ''fan'' \<notin> set (member_names example_imports AirpurifierOperationMode)
   \<and> async_set_speed example_imports (ok_vendor (blank_status True)) purifier_entity ''fan''
       = (Raise (KeyError ''Fan''), purifier_entity)"
  by (simp add: purifier_fields purifier_speed_list example_imports_simps title_fan ascii_only_def
      async_set_speed_def set_speed_in_def supported_features_def)

text \<open>
  Claim C10, amended. On the MiOT humidifier class, setting the speed is defined exactly
  for the three imported speed names: each is looked up in the reverse mapping and leads
  to one vendor call with the member High, Mid or Low; any other string raises
  \<^verbatim>\<open>KeyError\<close> with the entity untouched, so before any vendor call. Every other
  class, for an ASCII speed name, tests the speed support first, which is absent exactly
  when the imported support flag is 0, and then returns with the entity untouched;
  otherwise it looks the title-cased name up among the members of the operation-mode
  enumeration of its class: a member leads to one vendor call with that member, and any
  other name raises \<^verbatim>\<open>KeyError\<close> with the entity untouched. The lookup is in the
  enumeration, not in the speed list of the entity.
\<close>

theorem speed_name_resolution:
  "(cls d = XiaomiAirHumidifierMiot \<and> speed \<in> {SPEED_LOW c, SPEED_MEDIUM c, SPEED_HIGH c} \<longrightarrow>
      async_set_speed c v d speed =
        (Return None,
         snd (try_command v d ''Setting operation mode of the miio device failed.''
               (call_set_mode AirhumidifierMiotOperationMode
                 (if speed = SPEED_HIGH c then ''High''
                  else if speed = SPEED_MEDIUM c then ''Mid'' else ''Low'')))))
   \<and> (cls d1 = XiaomiAirHumidifierMiot \<and> speed1 \<notin> {SPEED_LOW c1, SPEED_MEDIUM c1, SPEED_HIGH c1} \<longrightarrow>
        async_set_speed c1 v1 d1 speed1 = (Raise (KeyError speed1), d1))
   \<and> (supported_features c2 d2 AND SUPPORT_SET_SPEED c2 = 0 \<longleftrightarrow> SUPPORT_SET_SPEED c2 = 0)
   \<and> (cls d2 \<noteq> XiaomiAirHumidifierMiot \<and> ascii_only speed2 \<and> SUPPORT_SET_SPEED c2 = 0 \<longrightarrow>
        async_set_speed c2 v2 d2 speed2 = (Return None, d2))
   \<and> (cls d3 \<noteq> XiaomiAirHumidifierMiot \<and> ascii_only speed3 \<and> SUPPORT_SET_SPEED c3 \<noteq> 0 \<and>
       title speed3 \<in> set (member_names c3
          (case cls d3 of
             XiaomiAirPurifier \<Rightarrow> AirpurifierOperationMode
           | XiaomiAirPurifierMiot \<Rightarrow> AirpurifierMiotOperationMode
           | XiaomiAirHumidifier \<Rightarrow> AirhumidifierOperationMode
           | XiaomiAirHumidifierMiot \<Rightarrow> AirhumidifierMiotOperationMode
           | XiaomiAirFresh \<Rightarrow> AirfreshOperationMode)) \<longrightarrow>
        async_set_speed c3 v3 d3 speed3 =
          (Return None,
           snd (try_command v3 d3 ''Setting operation mode of the miio device failed.''
                 (call_set_mode
                   (case cls d3 of
                      XiaomiAirPurifier \<Rightarrow> AirpurifierOperationMode
                    | XiaomiAirPurifierMiot \<Rightarrow> AirpurifierMiotOperationMode
                    | XiaomiAirHumidifier \<Rightarrow> AirhumidifierOperationMode
                    | XiaomiAirHumidifierMiot \<Rightarrow> AirhumidifierMiotOperationMode
                    | XiaomiAirFresh \<Rightarrow> AirfreshOperationMode)
                   (title speed3)))))
   \<and> (cls d4 \<noteq> XiaomiAirHumidifierMiot \<and> ascii_only speed4 \<and> SUPPORT_SET_SPEED c4 \<noteq> 0 \<and>
       title speed4 \<notin> set (member_names c4
          (case cls d4 of
             XiaomiAirPurifier \<Rightarrow> AirpurifierOperationMode
           | XiaomiAirPurifierMiot \<Rightarrow> AirpurifierMiotOperationMode
           | XiaomiAirHumidifier \<Rightarrow> AirhumidifierOperationMode
           | XiaomiAirHumidifierMiot \<Rightarrow> AirhumidifierMiotOperationMode
           | XiaomiAirFresh \<Rightarrow> AirfreshOperationMode)) \<longrightarrow>
        async_set_speed c4 v4 d4 speed4 = (Raise (KeyError (title speed4)), d4))"
proof (intro conjI impI)
  assume "cls d = XiaomiAirHumidifierMiot \<and> speed \<in> {SPEED_LOW c, SPEED_MEDIUM c, SPEED_HIGH c}"
  then show "async_set_speed c v d speed =
        (Return None,
         snd (try_command v d ''Setting operation mode of the miio device failed.''
               (call_set_mode AirhumidifierMiotOperationMode
                 (if speed = SPEED_HIGH c then ''High''
                  else if speed = SPEED_MEDIUM c then ''Mid'' else ''Low''))))"
    by (auto simp add: async_set_speed_def XiaomiAirHumidifierMiot_async_set_speed_def
        REVERSE_MODE_MAPPING_def MODE_MAPPING_def dict_literal_def
        AList.update_conv')
next
  assume "cls d1 = XiaomiAirHumidifierMiot \<and>
    speed1 \<notin> {SPEED_LOW c1, SPEED_MEDIUM c1, SPEED_HIGH c1}"
  then show "async_set_speed c1 v1 d1 speed1 = (Raise (KeyError speed1), d1)"
    by (simp add: async_set_speed_def XiaomiAirHumidifierMiot_async_set_speed_def
        REVERSE_MODE_MAPPING_def MODE_MAPPING_def dict_literal_def
        AList.update_conv')
next
  show "(supported_features c2 d2 AND SUPPORT_SET_SPEED c2 = 0) = (SUPPORT_SET_SPEED c2 = 0)"
    by (simp add: supported_features_def)
next
  assume "cls d2 \<noteq> XiaomiAirHumidifierMiot \<and> ascii_only speed2 \<and> SUPPORT_SET_SPEED c2 = 0"
  then show "async_set_speed c2 v2 d2 speed2 = (Return None, d2)"
    by (cases "cls d2")
       (simp_all add: async_set_speed_def set_speed_in_def supported_features_def)
next
  assume "cls d3 \<noteq> XiaomiAirHumidifierMiot \<and> ascii_only speed3 \<and> SUPPORT_SET_SPEED c3 \<noteq> 0 \<and>
       title speed3 \<in> set (member_names c3
          (case cls d3 of
             XiaomiAirPurifier \<Rightarrow> AirpurifierOperationMode
           | XiaomiAirPurifierMiot \<Rightarrow> AirpurifierMiotOperationMode
           | XiaomiAirHumidifier \<Rightarrow> AirhumidifierOperationMode
           | XiaomiAirHumidifierMiot \<Rightarrow> AirhumidifierMiotOperationMode
           | XiaomiAirFresh \<Rightarrow> AirfreshOperationMode))"
  then show "async_set_speed c3 v3 d3 speed3 =
          (Return None,
           snd (try_command v3 d3 ''Setting operation mode of the miio device failed.''
                 (call_set_mode
                   (case cls d3 of
                      XiaomiAirPurifier \<Rightarrow> AirpurifierOperationMode
                    | XiaomiAirPurifierMiot \<Rightarrow> AirpurifierMiotOperationMode
                    | XiaomiAirHumidifier \<Rightarrow> AirhumidifierOperationMode
                    | XiaomiAirHumidifierMiot \<Rightarrow> AirhumidifierMiotOperationMode
                    | XiaomiAirFresh \<Rightarrow> AirfreshOperationMode)
                   (title speed3))))"
    by (cases "cls d3")
       (simp_all add: async_set_speed_def set_speed_in_def supported_features_def)
next
  assume "cls d4 \<noteq> XiaomiAirHumidifierMiot \<and> ascii_only speed4 \<and> SUPPORT_SET_SPEED c4 \<noteq> 0 \<and>
       title speed4 \<notin> set (member_names c4
          (case cls d4 of
             XiaomiAirPurifier \<Rightarrow> AirpurifierOperationMode
           | XiaomiAirPurifierMiot \<Rightarrow> AirpurifierMiotOperationMode
           | XiaomiAirHumidifier \<Rightarrow> AirhumidifierOperationMode
           | XiaomiAirHumidifierMiot \<Rightarrow> AirhumidifierMiotOperationMode
           | XiaomiAirFresh \<Rightarrow> AirfreshOperationMode))"
  then show "async_set_speed c4 v4 d4 speed4 = (Raise (KeyError (title speed4)), d4)"
    by (cases "cls d4")
       (simp_all add: async_set_speed_def set_speed_in_def supported_features_def)
qed

theorem speed_name_resolution_witness:
  "cls humidifier_miot_entity = XiaomiAirHumidifierMiot
   \<and> ''medium'' \<in> {SPEED_LOW example_imports, SPEED_MEDIUM example_imports, SPEED_HIGH example_imports}
   \<and> async_set_speed example_imports (ok_vendor (blank_status True)) humidifier_miot_entity ''medium''
       = (Return None,
          humidifier_miot_entity\<lparr>vendor_calls := [call_set_mode AirhumidifierMiotOperationMode ''Mid'']\<rparr>)
   \<and> ''Low'' \<notin> {SPEED_LOW example_imports, SPEED_MEDIUM example_imports, SPEED_HIGH example_imports}
   \<and> async_set_speed example_imports (ok_vendor (blank_status True)) humidifier_miot_entity ''Low''
       = (Raise (KeyError ''Low''), humidifier_miot_entity)
   \<and> cls purifier_entity \<noteq> XiaomiAirHumidifierMiot
   \<and> SUPPORT_SET_SPEED example_imports \<noteq> 0
   \<and> ascii_only ''strong'' \<and> ascii_only ''fan''
   \<and> title ''strong'' \<in> set (member_names example_imports AirpurifierOperationMode)
   \<and> title ''strong'' \<notin> set (speed_list purifier_entity)
   \<and> async_set_speed example_imports (ok_vendor (blank_status True)) purifier_entity ''strong''
       = (Return None,
          purifier_entity\<lparr>vendor_calls := [call_set_mode AirpurifierOperationMode ''Strong'']\<rparr>)
   \<and> title ''fan'' \<notin> set (member_names example_imports AirpurifierOperationMode)
   \<and> async_set_speed example_imports (ok_vendor (blank_status True)) purifier_entity ''fan''
       = (Raise (KeyError ''Fan''), purifier_entity)
   \<and> SUPPORT_SET_SPEED (example_imports\<lparr>SUPPORT_SET_SPEED := 0\<rparr>) = 0
   \<and> async_set_speed (example_imports\<lparr>SUPPORT_SET_SPEED := 0\<rparr>) (ok_vendor (blank_status True))
        purifier_entity ''fan'' = (Return None, purifier_entity)"
  using speed_name_resolution [of humidifier_miot_entity "''medium''" example_imports
      "ok_vendor (blank_status True)" humidifier_miot_entity "''Low''" example_imports
      "ok_vendor (blank_status True)"
      "example_imports\<lparr>SUPPORT_SET_SPEED := 0\<rparr>" purifier_entity "''fan''"
      "ok_vendor (blank_status True)"
      purifier_entity "''strong''" example_imports "ok_vendor (blank_status True)"
      purifier_entity "''fan''" example_imports "ok_vendor (blank_status True)"]
  by (simp add: humidifier_miot_fields purifier_fields purifier_speed_list example_imports_simps
      title_fan title_strong ascii_only_def
      async_set_speed_def XiaomiAirHumidifierMiot_async_set_speed_def reverse_mode_mapping_lookup
      set_speed_in_def supported_features_def try_command_def ok_vendor_def Let_def)

section \<open>Local state after turn-on, turn-off and speed change\<close>




section \<open>Argument domains\<close>

lemma validate_data_clamp:
  "snd (SERVICE_TO_METHOD s) = Some (key, Clamp lo hi) \<Longrightarrow>
   validate_data c s (Some x) = Return (Some (min hi (max lo x)))"
  by (simp add: validate_data_def Let_def min_def max_def)

lemma invoke_one_call:
  assumes "fst (SERVICE_TO_METHOD s) \<in> set (methods_of (cls d))"
    and "device_features d AND required_feature s \<noteq> 0"
    and "s = SERVICE_SET_LED_BRIGHTNESS \<longrightarrow> (\<forall>e. default 2 params \<in> set (member_values c e))"
  shows "fst (invoke c v d (fst (SERVICE_TO_METHOD s)) params) = Return () \<and>
         (\<exists>func. vendor_calls (snd (invoke c v d (fst (SERVICE_TO_METHOD s)) params))
            = vendor_calls d @ [func])"
  using assms
  by (cases s; cases "cls d")
     (simp_all add: invoke_def getattr_method_def call_method_def method_defs class_method_defs
        command_def try_command_def Let_def split: reply.splits)

lemma led_brightness_validated:
  "validate_data c SERVICE_SET_LED_BRIGHTNESS data = Return params \<Longrightarrow>
   default 2 params \<in> {0, 1, 2}"
  by (cases data) (auto simp add: validate_data_def SERVICE_SCHEMA_defs default_def Let_def)

lemma humidifier_miot_has_target_humidity:
  "fst (SERVICE_TO_METHOD SERVICE_SET_TARGET_HUMIDITY) \<in> set (methods_of (cls humidifier_miot_entity))"
  "device_features humidifier_miot_entity AND required_feature SERVICE_SET_TARGET_HUMIDITY \<noteq> 0"
  by (simp_all add: humidifier_miot_fields class_method_defs FEATURE_FLAGS_defs FEATURE_defs)

lemma purifier_3_has_led_brightness:
  "fst (SERVICE_TO_METHOD SERVICE_SET_LED_BRIGHTNESS) \<in> set (methods_of (cls purifier_3_entity))"
  "device_features purifier_3_entity AND required_feature SERVICE_SET_LED_BRIGHTNESS \<noteq> 0"
  by (simp_all add: purifier_3_fields class_method_defs FEATURE_FLAGS_defs FEATURE_defs)

lemma example_led_values: "\<forall>e. {0, 1, 2} \<subseteq> set (member_values example_imports e)"
  by (simp add: example_imports_simps)

lemma try_command_calls:
  "vendor_calls (snd (try_command v d msg func)) = vendor_calls d @ [func]"
  by (simp add: try_command_def Let_def split: reply.splits)

lemma command_calls:
  "fst (command v d msg func) = Return ()"
  "vendor_calls (snd (command v d msg func)) = vendor_calls d @ [func]"
  by (simp_all add: command_def try_command_calls)

lemmas dispatch_defs =
  dispatch_def validate_data_def SERVICE_SCHEMA_defs invoke_def getattr_method_def
  call_method_def method_defs class_method_defs default_def Let_def

lemma purifier_pro_fields:
  "device_features purifier_pro_entity = FEATURE_FLAGS_AIRPURIFIER_PRO"
  "cls purifier_pro_entity = XiaomiAirPurifier"
  "available purifier_pro_entity = False"
  "skip_update purifier_pro_entity = False"
  "error_log purifier_pro_entity = []"
  "vendor_calls purifier_pro_entity = []"
  "state purifier_pro_entity = None"
  by (simp_all add: purifier_pro_entity_def entity_init_def XiaomiAirPurifier_init_def
      XiaomiGenericDevice_init_def Let_def example_imports_def)

lemma example_has_cap:
  "fst (SERVICE_TO_METHOD SERVICE_SET_FAVORITE_LEVEL) \<in> set (methods_of (cls purifier_3_entity))"
  "device_features purifier_3_entity AND required_feature SERVICE_SET_FAVORITE_LEVEL \<noteq> 0"
  "fst (SERVICE_TO_METHOD SERVICE_SET_FAN_LEVEL) \<in> set (methods_of (cls purifier_3_entity))"
  "device_features purifier_3_entity AND required_feature SERVICE_SET_FAN_LEVEL \<noteq> 0"
  "fst (SERVICE_TO_METHOD SERVICE_SET_VOLUME) \<in> set (methods_of (cls purifier_pro_entity))"
  "device_features purifier_pro_entity AND required_feature SERVICE_SET_VOLUME \<noteq> 0"
  "fst (SERVICE_TO_METHOD SERVICE_SET_MOTOR_SPEED) \<in> set (methods_of (cls humidifier_miot_entity))"
  "device_features humidifier_miot_entity AND required_feature SERVICE_SET_MOTOR_SPEED \<noteq> 0"
  "fst (SERVICE_TO_METHOD SERVICE_SET_EXTRA_FEATURES) \<in> set (methods_of (cls purifier_entity))"
  "device_features purifier_entity AND required_feature SERVICE_SET_EXTRA_FEATURES \<noteq> 0"
  by (simp_all add: purifier_3_fields purifier_pro_fields humidifier_miot_fields purifier_fields
      class_method_defs FEATURE_FLAGS_defs FEATURE_defs)

text \<open>
  Claim C2, as stated, fails: led brightness 5 on a purifier 3 is not rejected. The schema
  clamps it to 2, the call returns normally and one vendor call is issued with brightness 2.
\<close>

theorem clamp_not_rejected_counterexample:
  "fst (dispatch example_imports (ok_vendor (blank_status True)) purifier_3_entity
          SERVICE_SET_LED_BRIGHTNESS (Some 5)) = Return ()
   \<and> vendor_calls (snd (dispatch example_imports (ok_vendor (blank_status True)) purifier_3_entity
          SERVICE_SET_LED_BRIGHTNESS (Some 5)))
       = [call_set_led_brightness AirpurifierMiotLedBrightness 2]"
  by (simp add: dispatch_def validate_data_def SERVICE_SCHEMA_defs invoke_def getattr_method_def
      call_method_def method_defs class_method_defs purifier_3_fields example_imports_simps
      FEATURE_FLAGS_defs FEATURE_defs default_def command_def try_command_def ok_vendor_def Let_def)

text \<open>
  Claim C2, amended. On an entity that has the method and the capability of a named
  action (and with led brightness enumerations that have the values 0, 1 and 2): a value
  the schema accepts leads to exactly one vendor call, and a value the schema refuses, or
  a missing value, raises before the entity is touched. A clamped range refuses nothing:
  the value is moved to the nearest bound and that is what the vendor call carries, for
  led brightness within 0..2 (with the enumeration of the entity's class), favorite level
  within 0..17, fan level within 1..3, volume within 0..100 and motor speed within
  200..2000. The target humidity is forwarded unchanged when it is one of 30, 40, 50, 60,
  70, 80 and refused otherwise. Extra features carry what the imported positive-int check
  returns, and are refused when it refuses.
\<close>

theorem validated_value_one_call:
  assumes has: "fst (SERVICE_TO_METHOD s) \<in> set (methods_of (cls d))"
    and cap: "device_features d AND required_feature s \<noteq> 0"
    and led: "\<forall>e. {0, 1, 2} \<subseteq> set (member_values c e)"
  shows
    "(validate_data c s data = Return params \<longrightarrow>
        fst (dispatch c v d s data) = Return () \<and>
        (\<exists>func. vendor_calls (snd (dispatch c v d s data)) = vendor_calls d @ [func]))
     \<and> (validate_data c s data = Raise e \<longrightarrow> dispatch c v d s data = (Raise e, d))
     \<and> (snd (SERVICE_TO_METHOD s) \<noteq> None \<longrightarrow> dispatch c v d s None = (Raise Invalid, d))
     \<and> (s = SERVICE_SET_LED_BRIGHTNESS \<longrightarrow>
          fst (dispatch c v d s (Some x)) = Return () \<and>
          vendor_calls (snd (dispatch c v d s (Some x))) =
            vendor_calls d @
              [call_set_led_brightness
                (case cls d of
                   XiaomiAirPurifier \<Rightarrow> AirpurifierLedBrightness
                 | XiaomiAirPurifierMiot \<Rightarrow> AirpurifierMiotLedBrightness
                 | XiaomiAirHumidifier \<Rightarrow> AirhumidifierLedBrightness
                 | XiaomiAirHumidifierMiot \<Rightarrow> AirhumidifierMiotLedBrightness
                 | XiaomiAirFresh \<Rightarrow> AirfreshLedBrightness)
                (min 2 (max 0 x))])
     \<and> (s = SERVICE_SET_FAVORITE_LEVEL \<longrightarrow>
          fst (dispatch c v d s (Some x)) = Return () \<and>
          vendor_calls (snd (dispatch c v d s (Some x))) =
            vendor_calls d @ [call_set_favorite_level (min 17 (max 0 x))])
     \<and> (s = SERVICE_SET_FAN_LEVEL \<longrightarrow>
          fst (dispatch c v d s (Some x)) = Return () \<and>
          vendor_calls (snd (dispatch c v d s (Some x))) =
            vendor_calls d @ [call_set_fan_level (min 3 (max 1 x))])
     \<and> (s = SERVICE_SET_VOLUME \<longrightarrow>
          fst (dispatch c v d s (Some x)) = Return () \<and>
          vendor_calls (snd (dispatch c v d s (Some x))) =
            vendor_calls d @ [call_set_volume (min 100 (max 0 x))])
     \<and> (s = SERVICE_SET_MOTOR_SPEED \<longrightarrow>
          fst (dispatch c v d s (Some x)) = Return () \<and>
          vendor_calls (snd (dispatch c v d s (Some x))) =
            vendor_calls d @ [call_set_speed (min 2000 (max 200 x))])
     \<and> (s = SERVICE_SET_TARGET_HUMIDITY \<and> x \<in> {30, 40, 50, 60, 70, 80} \<longrightarrow>
          fst (dispatch c v d s (Some x)) = Return () \<and>
          vendor_calls (snd (dispatch c v d s (Some x))) =
            vendor_calls d @ [call_set_target_humidity x])
     \<and> (s = SERVICE_SET_TARGET_HUMIDITY \<and> x \<notin> {30, 40, 50, 60, 70, 80} \<longrightarrow>
          dispatch c v d s (Some x) = (Raise Invalid, d))
     \<and> (s = SERVICE_SET_EXTRA_FEATURES \<and> positive_int c x = Some y \<longrightarrow>
          fst (dispatch c v d s (Some x)) = Return () \<and>
          vendor_calls (snd (dispatch c v d s (Some x))) =
            vendor_calls d @ [call_set_extra_features y])
     \<and> (s = SERVICE_SET_EXTRA_FEATURES \<and> positive_int c x = None \<longrightarrow>
          dispatch c v d s (Some x) = (Raise Invalid, d))"
proof -
  have general: "validate_data c s data = Return params \<longrightarrow>
        fst (dispatch c v d s data) = Return () \<and>
        (\<exists>func. vendor_calls (snd (dispatch c v d s data)) = vendor_calls d @ [func])"
  proof
    assume ok: "validate_data c s data = Return params"
    have "s = SERVICE_SET_LED_BRIGHTNESS \<longrightarrow> (\<forall>e. default 2 params \<in> set (member_values c e))"
      using led led_brightness_validated [of c data params] ok by blast
    from invoke_one_call [OF has cap this, of v]
    show "fst (dispatch c v d s data) = Return () \<and>
        (\<exists>func. vendor_calls (snd (dispatch c v d s data)) = vendor_calls d @ [func])"
      using ok by (simp add: dispatch_def)
  qed
  have refused: "validate_data c s data = Raise e \<longrightarrow> dispatch c v d s data = (Raise e, d)"
    by (simp add: dispatch_def)
  have missing: "snd (SERVICE_TO_METHOD s) \<noteq> None \<longrightarrow> dispatch c v d s None = (Raise Invalid, d)"
    by (auto simp add: dispatch_def validate_data_def)
  have brightness: "s = SERVICE_SET_LED_BRIGHTNESS \<longrightarrow>
          fst (dispatch c v d s (Some x)) = Return () \<and>
          vendor_calls (snd (dispatch c v d s (Some x))) =
            vendor_calls d @
              [call_set_led_brightness
                (case cls d of
                   XiaomiAirPurifier \<Rightarrow> AirpurifierLedBrightness
                 | XiaomiAirPurifierMiot \<Rightarrow> AirpurifierMiotLedBrightness
                 | XiaomiAirHumidifier \<Rightarrow> AirhumidifierLedBrightness
                 | XiaomiAirHumidifierMiot \<Rightarrow> AirhumidifierMiotLedBrightness
                 | XiaomiAirFresh \<Rightarrow> AirfreshLedBrightness)
                (min 2 (max 0 x))]"
  proof
    assume s: "s = SERVICE_SET_LED_BRIGHTNESS"
    let ?y = "min 2 (max 0 x)"
    have "?y \<in> {0, 1, 2}" by (auto simp add: min_def max_def)
    then have mem: "\<And>e. ?y \<in> set (member_values c e)" using led by blast
    have v: "validate_data c s (Some x) = Return (Some ?y)"
      using s by (simp add: validate_data_def SERVICE_SCHEMA_defs Let_def min_def max_def)
    have i: "fst (invoke c v d ''async_set_led_brightness'' (Some ?y)) = Return () \<and>
        vendor_calls (snd (invoke c v d ''async_set_led_brightness'' (Some ?y))) =
          vendor_calls d @
            [call_set_led_brightness
              (case cls d of
                 XiaomiAirPurifier \<Rightarrow> AirpurifierLedBrightness
               | XiaomiAirPurifierMiot \<Rightarrow> AirpurifierMiotLedBrightness
               | XiaomiAirHumidifier \<Rightarrow> AirhumidifierLedBrightness
               | XiaomiAirHumidifierMiot \<Rightarrow> AirhumidifierMiotLedBrightness
               | XiaomiAirFresh \<Rightarrow> AirfreshLedBrightness) ?y]"
      using has cap s mem
      by (cases "cls d")
         (simp_all add: invoke_def getattr_method_def call_method_def method_defs
            class_method_defs command_calls default_def)
    show "fst (dispatch c v d s (Some x)) = Return () \<and>
          vendor_calls (snd (dispatch c v d s (Some x))) =
            vendor_calls d @
              [call_set_led_brightness
                (case cls d of
                   XiaomiAirPurifier \<Rightarrow> AirpurifierLedBrightness
                 | XiaomiAirPurifierMiot \<Rightarrow> AirpurifierMiotLedBrightness
                 | XiaomiAirHumidifier \<Rightarrow> AirhumidifierLedBrightness
                 | XiaomiAirHumidifierMiot \<Rightarrow> AirhumidifierMiotLedBrightness
                 | XiaomiAirFresh \<Rightarrow> AirfreshLedBrightness)
                (min 2 (max 0 x))]"
      using i v s by (simp add: dispatch_def)
  qed
  have favorite: "s = SERVICE_SET_FAVORITE_LEVEL \<longrightarrow>
          fst (dispatch c v d s (Some x)) = Return () \<and>
          vendor_calls (snd (dispatch c v d s (Some x))) =
            vendor_calls d @ [call_set_favorite_level (min 17 (max 0 x))]"
    using has cap
    by (cases "cls d") (auto simp add: dispatch_defs command_calls min_def max_def)
  have fan: "s = SERVICE_SET_FAN_LEVEL \<longrightarrow>
          fst (dispatch c v d s (Some x)) = Return () \<and>
          vendor_calls (snd (dispatch c v d s (Some x))) =
            vendor_calls d @ [call_set_fan_level (min 3 (max 1 x))]"
    using has cap
    by (cases "cls d") (auto simp add: dispatch_defs command_calls min_def max_def)
  have volume: "s = SERVICE_SET_VOLUME \<longrightarrow>
          fst (dispatch c v d s (Some x)) = Return () \<and>
          vendor_calls (snd (dispatch c v d s (Some x))) =
            vendor_calls d @ [call_set_volume (min 100 (max 0 x))]"
    using has cap
    by (cases "cls d") (auto simp add: dispatch_defs command_calls min_def max_def)
  have motor: "s = SERVICE_SET_MOTOR_SPEED \<longrightarrow>
          fst (dispatch c v d s (Some x)) = Return () \<and>
          vendor_calls (snd (dispatch c v d s (Some x))) =
            vendor_calls d @ [call_set_speed (min 2000 (max 200 x))]"
    using has cap
    by (cases "cls d") (auto simp add: dispatch_defs command_calls min_def max_def)
  have humidity: "s = SERVICE_SET_TARGET_HUMIDITY \<and> x \<in> {30, 40, 50, 60, 70, 80} \<longrightarrow>
          fst (dispatch c v d s (Some x)) = Return () \<and>
          vendor_calls (snd (dispatch c v d s (Some x))) =
            vendor_calls d @ [call_set_target_humidity x]"
    using has cap
    by (cases "cls d") (auto simp add: dispatch_defs command_calls)
  have humidity_refused: "s = SERVICE_SET_TARGET_HUMIDITY \<and> x \<notin> {30, 40, 50, 60, 70, 80} \<longrightarrow>
          dispatch c v d s (Some x) = (Raise Invalid, d)"
    by (auto simp add: dispatch_def validate_data_def SERVICE_SCHEMA_defs)
  have extra: "s = SERVICE_SET_EXTRA_FEATURES \<and> positive_int c x = Some y \<longrightarrow>
          fst (dispatch c v d s (Some x)) = Return () \<and>
          vendor_calls (snd (dispatch c v d s (Some x))) =
            vendor_calls d @ [call_set_extra_features y]"
    using has cap
    by (cases "cls d") (auto simp add: dispatch_defs command_calls)
  have extra_refused: "s = SERVICE_SET_EXTRA_FEATURES \<and> positive_int c x = None \<longrightarrow>
          dispatch c v d s (Some x) = (Raise Invalid, d)"
    by (auto simp add: dispatch_def validate_data_def SERVICE_SCHEMA_defs)
  from general refused missing brightness favorite fan volume motor humidity humidity_refused
    extra extra_refused
  show ?thesis by blast
qed

theorem validated_value_one_call_witness:
  "fst (SERVICE_TO_METHOD SERVICE_SET_LED_BRIGHTNESS) \<in> set (methods_of (cls purifier_3_entity))
   \<and> device_features purifier_3_entity AND required_feature SERVICE_SET_LED_BRIGHTNESS \<noteq> 0
   \<and> validate_data example_imports SERVICE_SET_LED_BRIGHTNESS (Some 1) = Return (Some 1)
   \<and> fst (dispatch example_imports (ok_vendor (blank_status True)) purifier_3_entity
            SERVICE_SET_LED_BRIGHTNESS (Some 1)) = Return ()
   \<and> vendor_calls (snd (dispatch example_imports (ok_vendor (blank_status True)) purifier_3_entity
            SERVICE_SET_LED_BRIGHTNESS (Some 1)))
       = [call_set_led_brightness AirpurifierMiotLedBrightness 1]
   \<and> answer (ok_vendor (blank_status True)) (call_set_led_brightness AirpurifierMiotLedBrightness 1)
       = Returned SUCCESS
   \<and> vendor_calls (snd (dispatch example_imports (ok_vendor (blank_status True)) purifier_3_entity
            SERVICE_SET_LED_BRIGHTNESS (Some 5)))
       = [call_set_led_brightness AirpurifierMiotLedBrightness 2]
   \<and> dispatch example_imports (ok_vendor (blank_status True)) purifier_3_entity
        SERVICE_SET_LED_BRIGHTNESS None = (Raise Invalid, purifier_3_entity)
   \<and> fst (SERVICE_TO_METHOD SERVICE_SET_FAVORITE_LEVEL) \<in> set (methods_of (cls purifier_3_entity))
   \<and> device_features purifier_3_entity AND required_feature SERVICE_SET_FAVORITE_LEVEL \<noteq> 0
   \<and> vendor_calls (snd (dispatch example_imports (ok_vendor (blank_status True)) purifier_3_entity
            SERVICE_SET_FAVORITE_LEVEL (Some 20))) = [call_set_favorite_level 17]
   \<and> fst (SERVICE_TO_METHOD SERVICE_SET_FAN_LEVEL) \<in> set (methods_of (cls purifier_3_entity))
   \<and> device_features purifier_3_entity AND required_feature SERVICE_SET_FAN_LEVEL \<noteq> 0
   \<and> vendor_calls (snd (dispatch example_imports (ok_vendor (blank_status True)) purifier_3_entity
            SERVICE_SET_FAN_LEVEL (Some 0))) = [call_set_fan_level 1]
   \<and> fst (SERVICE_TO_METHOD SERVICE_SET_VOLUME) \<in> set (methods_of (cls purifier_pro_entity))
   \<and> device_features purifier_pro_entity AND required_feature SERVICE_SET_VOLUME \<noteq> 0
   \<and> vendor_calls (snd (dispatch example_imports (ok_vendor (blank_status True)) purifier_pro_entity
            SERVICE_SET_VOLUME (Some 150))) = [call_set_volume 100]
   \<and> fst (SERVICE_TO_METHOD SERVICE_SET_MOTOR_SPEED) \<in> set (methods_of (cls humidifier_miot_entity))
   \<and> device_features humidifier_miot_entity AND required_feature SERVICE_SET_MOTOR_SPEED \<noteq> 0
   \<and> vendor_calls (snd (dispatch example_imports (ok_vendor (blank_status True))
            humidifier_miot_entity SERVICE_SET_MOTOR_SPEED (Some 100))) = [call_set_speed 200]
   \<and> fst (SERVICE_TO_METHOD SERVICE_SET_TARGET_HUMIDITY) \<in> set (methods_of (cls humidifier_miot_entity))
   \<and> device_features humidifier_miot_entity AND required_feature SERVICE_SET_TARGET_HUMIDITY \<noteq> 0
   \<and> vendor_calls (snd (dispatch example_imports (ok_vendor (blank_status True))
            humidifier_miot_entity SERVICE_SET_TARGET_HUMIDITY (Some 50)))
       = [call_set_target_humidity 50]
   \<and> validate_data example_imports SERVICE_SET_TARGET_HUMIDITY (Some 45) = Raise Invalid
   \<and> dispatch example_imports (ok_vendor (blank_status True)) humidifier_miot_entity
        SERVICE_SET_TARGET_HUMIDITY (Some 45) = (Raise Invalid, humidifier_miot_entity)
   \<and> fst (SERVICE_TO_METHOD SERVICE_SET_EXTRA_FEATURES) \<in> set (methods_of (cls purifier_entity))
   \<and> device_features purifier_entity AND required_feature SERVICE_SET_EXTRA_FEATURES \<noteq> 0
   \<and> positive_int example_imports 3 = Some 3
   \<and> vendor_calls (snd (dispatch example_imports (ok_vendor (blank_status True)) purifier_entity
            SERVICE_SET_EXTRA_FEATURES (Some 3))) = [call_set_extra_features 3]
   \<and> positive_int example_imports (- 1) = None
   \<and> dispatch example_imports (ok_vendor (blank_status True)) purifier_entity
        SERVICE_SET_EXTRA_FEATURES (Some (- 1)) = (Raise Invalid, purifier_entity)"
  using
    validated_value_one_call [OF purifier_3_has_led_brightness example_led_values,
      where x = 1 and v = "ok_vendor (blank_status True)" and data = "Some 1"
        and params = "Some 1" and e = Invalid and y = 0]
    validated_value_one_call [OF purifier_3_has_led_brightness example_led_values,
      where x = 5 and v = "ok_vendor (blank_status True)" and data = None
        and params = None and e = Invalid and y = 0]
    validated_value_one_call [OF example_has_cap(1,2) example_led_values,
      where x = 20 and v = "ok_vendor (blank_status True)" and data = None
        and params = None and e = Invalid and y = 0]
    validated_value_one_call [OF example_has_cap(3,4) example_led_values,
      where x = 0 and v = "ok_vendor (blank_status True)" and data = None
        and params = None and e = Invalid and y = 0]
    validated_value_one_call [OF example_has_cap(5,6) example_led_values,
      where x = 150 and v = "ok_vendor (blank_status True)" and data = None
        and params = None and e = Invalid and y = 0]
    validated_value_one_call [OF example_has_cap(7,8) example_led_values,
      where x = 100 and v = "ok_vendor (blank_status True)" and data = None
        and params = None and e = Invalid and y = 0]
    validated_value_one_call [OF humidifier_miot_has_target_humidity example_led_values,
      where x = 50 and v = "ok_vendor (blank_status True)" and data = "Some 45"
        and params = None and e = Invalid and y = 0]
    validated_value_one_call [OF humidifier_miot_has_target_humidity example_led_values,
      where x = 45 and v = "ok_vendor (blank_status True)" and data = "Some 45"
        and params = None and e = Invalid and y = 0]
    validated_value_one_call [OF example_has_cap(9,10) example_led_values,
      where x = 3 and v = "ok_vendor (blank_status True)" and data = None
        and params = None and e = Invalid and y = 3]
    validated_value_one_call [OF example_has_cap(9,10) example_led_values,
      where x = "- 1" and v = "ok_vendor (blank_status True)" and data = None
        and params = None and e = Invalid and y = 0]
    purifier_3_has_led_brightness humidifier_miot_has_target_humidity example_has_cap
  by (simp add: validate_data_def SERVICE_SCHEMA_defs purifier_3_fields purifier_pro_fields
      humidifier_miot_fields purifier_fields ok_vendor_def example_imports_def Let_def)

section \<open>Choice of the entity at setup\<close>




section \<open>Projection of the status\<close>

text \<open>
  Claim C5. For an entity with the attribute table of any class and model, whose reported
  attributes are plain scalars, and a status object that has every field of the table: a
  poll succeeds; afterwards every key of the table, read back from the reported
  attributes, gives the scalar normalisation of the field read directly off the status (a
  member of an enumeration is replaced by its value); and every reported value is a plain
  scalar, \<^verbatim>\<open>None\<close> included, never a member of an enumeration.
\<close>

theorem projection_roundtrip:
  assumes "available_attributes d = available_attributes (entity_init c k m eid)"
    and "\<forall>(key, value) \<in> set (state_attrs d). \<exists>x. value = Plain x"
    and "\<not> skip_update d" and "status_answer v = Returned st"
    and "\<forall>(key, attr) \<in> set (available_attributes d). attribute st attr \<noteq> None"
  shows
    "fst (async_update v d) = Return ()
     \<and> (\<forall>(key, attr) \<in> set (available_attributes d).
           map_of (state_attrs (snd (async_update v d))) key
             = Some (Plain (scalar_of (the (attribute st attr)))))
     \<and> (\<forall>(key, value) \<in> set (state_attrs (snd (async_update v d))). \<exists>x. value = Plain x)"
proof -
  have dist: "distinct (map fst (available_attributes d))"
    using assms(1) entity_init_table_distinct [of c k m eid] by simp
  from roundtrip_general [OF dist assms(2-5)] show ?thesis by blast
qed

theorem projection_roundtrip_witness:
  "available_attributes fresh_air_entity =
     available_attributes (entity_init example_imports XiaomiAirFresh ''zhimi.airfresh.va2'' ''fan.fresh'')
   \<and> list_all (\<lambda>(key, value). case value of Plain x \<Rightarrow> True | EnumMember n x \<Rightarrow> False)
        (state_attrs fresh_air_entity)
   \<and> \<not> skip_update fresh_air_entity
   \<and> status_answer (ok_vendor enum_status) = Returned enum_status
   \<and> list_all (\<lambda>(key, attr). attribute enum_status attr \<noteq> None)
        (available_attributes fresh_air_entity)
   \<and> attribute enum_status ''mode'' = Some (EnumMember ''Auto'' (PyStr ''auto''))
   \<and> fst (async_update (ok_vendor enum_status) fresh_air_entity) = Return ()
   \<and> map_of (state_attrs (snd (async_update (ok_vendor enum_status) fresh_air_entity))) ''mode''
       = Some (Plain (PyStr ''auto''))
   \<and> map_of (state_attrs (snd (async_update (ok_vendor enum_status) fresh_air_entity)))
        ''led_brightness'' = Some (Plain (PyInt 1))
   \<and> map_of (state_attrs (snd (async_update (ok_vendor enum_status) fresh_air_entity))) ''co2''
       = Some (Plain PyNone)
   \<and> list_all (\<lambda>(key, value). case value of Plain x \<Rightarrow> True | EnumMember n x \<Rightarrow> False)
        (state_attrs (snd (async_update (ok_vendor enum_status) fresh_air_entity)))"
proof -
  have h1: "available_attributes fresh_air_entity =
     available_attributes (entity_init example_imports XiaomiAirFresh ''zhimi.airfresh.va2'' ''fan.fresh'')"
    by (simp add: fresh_air_entity_def)
  have h2: "\<forall>(key, value) \<in> set (state_attrs fresh_air_entity). \<exists>x. value = Plain x"
    by (simp add: fresh_air_attrs)
  have h3: "\<not> skip_update fresh_air_entity" by (simp add: fresh_air_fields)
  have h4: "status_answer (ok_vendor enum_status) = Returned enum_status"
    by (simp add: ok_vendor_def)
  have h5: "\<forall>(key, attr) \<in> set (available_attributes fresh_air_entity).
      attribute enum_status attr \<noteq> None"
    by (simp add: enum_status_def)
  note r = projection_roundtrip [OF h1 h2 h3 h4 h5]
  from r have a: "fst (async_update (ok_vendor enum_status) fresh_air_entity) = Return ()"
    by blast
  from r have b: "\<forall>(key, attr) \<in> set (available_attributes fresh_air_entity).
      map_of (state_attrs (snd (async_update (ok_vendor enum_status) fresh_air_entity))) key
        = Some (Plain (scalar_of (the (attribute enum_status attr))))" by blast
  from r have c: "\<forall>(key, value) \<in>
      set (state_attrs (snd (async_update (ok_vendor enum_status) fresh_air_entity))).
        \<exists>x. value = Plain x" by blast
  from c have c': "list_all (\<lambda>(key, value). case value of Plain x \<Rightarrow> True | EnumMember n x \<Rightarrow> False)
        (state_attrs (snd (async_update (ok_vendor enum_status) fresh_air_entity)))"
    by (auto simp add: list_all_iff)
  from b have b': "map_of (state_attrs (snd (async_update (ok_vendor enum_status) fresh_air_entity))) ''mode''
       = Some (Plain (PyStr ''auto''))"
    "map_of (state_attrs (snd (async_update (ok_vendor enum_status) fresh_air_entity)))
        ''led_brightness'' = Some (Plain (PyInt 1))"
    "map_of (state_attrs (snd (async_update (ok_vendor enum_status) fresh_air_entity))) ''co2''
       = Some (Plain PyNone)"
    by (simp_all add: fresh_air_table enum_status_def)
  have h2': "list_all (\<lambda>(key, value). case value of Plain x \<Rightarrow> True | EnumMember n x \<Rightarrow> False)
        (state_attrs fresh_air_entity)"
    by (simp add: fresh_air_attrs)
  have h5': "list_all (\<lambda>(key, attr). attribute enum_status attr \<noteq> None)
        (available_attributes fresh_air_entity)"
    by (simp add: fresh_air_table enum_status_def)
  have e: "attribute enum_status ''mode'' = Some (EnumMember ''Auto'' (PyStr ''auto''))"
    by (simp add: enum_status_def)
  from h1 h2' h3 h4 h5' e a b' c' show ?thesis by blast
qed

section \<open>A field the status does not have\<close>




section \<open>Broadcast to several entities\<close>

text \<open>
  Claim C7. When a named action is broadcast, what the hardware of one host does
  (raising the device exception on every call, say) changes neither the outcome of the
  handler nor the resulting entity of any other host: two runs whose hardware differs on
  one host only end with the same outcome and with the same entities on all other hosts.
  Moreover, for every service (for led brightness, with a brightness that is a value of
  the enumerations) the handler returns normally, and every target that has the method
  ends as its own method followed by its own poll leave it, on its own hardware. With
  three targets of which the second cannot be reached, the first and the third each
  issue their vendor call, which is answered with \<^verbatim>\<open>["ok"]\<close>, and are polled.
\<close>

theorem broadcast_isolation:
  "((\<forall>h. h \<noteq> bad \<longrightarrow> vs h = vs' h) \<longrightarrow>
      fst (async_service_handler c vs reg s ids params) =
        fst (async_service_handler c vs' reg s ids params)
      \<and> list_all2 (\<lambda>(h, e) (h', e'). h = h' \<and> (h \<noteq> bad \<longrightarrow> e = e'))
          (snd (async_service_handler c vs reg s ids params))
          (snd (async_service_handler c vs' reg s ids params)))
   \<and> (s1 \<noteq> SERVICE_SET_LED_BRIGHTNESS \<or> (\<forall>e. default 2 params1 \<in> set (member_values c1 e)) \<longrightarrow>
      async_service_handler c1 vs1 reg1 s1 ids1 params1 =
        (Return (),
         map (\<lambda>(host, entity).
                if targeted ids1 entity \<and> fst (SERVICE_TO_METHOD s1) \<in> set (methods_of (cls entity))
                then (host, method_then_poll c1 (fst (SERVICE_TO_METHOD s1)) params1 (vs1 host) entity)
                else (host, entity)) reg1))"
proof (intro conjI impI)
  assume same: "\<forall>h. h \<noteq> bad \<longrightarrow> vs h = vs' h"
  from handle_entities_isolated [OF same]
  show "fst (async_service_handler c vs reg s ids params) =
        fst (async_service_handler c vs' reg s ids params)"
    and "list_all2 (\<lambda>(h, e) (h', e'). h = h' \<and> (h \<noteq> bad \<longrightarrow> e = e'))
          (snd (async_service_handler c vs reg s ids params))
          (snd (async_service_handler c vs' reg s ids params))"
    unfolding async_service_handler_def by blast+
next
  assume "s1 \<noteq> SERVICE_SET_LED_BRIGHTNESS \<or> (\<forall>e. default 2 params1 \<in> set (member_values c1 e))"
  then have "fst (SERVICE_TO_METHOD s1) \<noteq> ''async_set_led_brightness'' \<or>
      (\<forall>e. default 2 params1 \<in> set (member_values c1 e))"
    by (cases s1) auto
  from handle_entities_map [OF this]
  show "async_service_handler c1 vs1 reg1 s1 ids1 params1 =
        (Return (),
         map (\<lambda>(host, entity).
                if targeted ids1 entity \<and> fst (SERVICE_TO_METHOD s1) \<in> set (methods_of (cls entity))
                then (host, method_then_poll c1 (fst (SERVICE_TO_METHOD s1)) params1 (vs1 host) entity)
                else (host, entity)) reg1)"
    unfolding async_service_handler_def .
qed

theorem broadcast_isolation_witness:
  "second_unreachable ''192.168.1.11'' = all_reachable ''192.168.1.11''
   \<and> second_unreachable ''192.168.1.13'' = all_reachable ''192.168.1.13''
   \<and> answer (second_unreachable ''192.168.1.12'') (call_set_buzzer True) = DeviceException ''timeout''
   \<and> answer (second_unreachable ''192.168.1.11'') (call_set_buzzer True) = Returned SUCCESS
   \<and> answer (second_unreachable ''192.168.1.13'') (call_set_buzzer True) = Returned SUCCESS
   \<and> fst (async_service_handler example_imports second_unreachable three_targets
            SERVICE_SET_BUZZER_ON None None) = Return ()
   \<and> map (\<lambda>(host, entity). (host, vendor_calls entity, available entity))
        (snd (async_service_handler example_imports second_unreachable three_targets
               SERVICE_SET_BUZZER_ON None None))
       = [(''192.168.1.11'', [call_set_buzzer True, call_status], True),
          (''192.168.1.12'', [call_set_buzzer True, call_status], False),
          (''192.168.1.13'', [call_set_buzzer True, call_status], True)]
   \<and> map (\<lambda>(host, entity). (host, vendor_calls entity, available entity))
        (snd (async_service_handler example_imports all_reachable three_targets
               SERVICE_SET_BUZZER_ON None None))
       = [(''192.168.1.11'', [call_set_buzzer True, call_status], True),
          (''192.168.1.12'', [call_set_buzzer True, call_status], True),
          (''192.168.1.13'', [call_set_buzzer True, call_status], True)]"
proof -
  have led: "SERVICE_SET_BUZZER_ON \<noteq> SERVICE_SET_LED_BRIGHTNESS \<or>
      (\<forall>e. default 2 None \<in> set (member_values example_imports e))" by simp
  note t1 = broadcast_isolation [of "''192.168.1.12''" second_unreachable all_reachable
      example_imports three_targets SERVICE_SET_BUZZER_ON None None
      SERVICE_SET_BUZZER_ON None example_imports second_unreachable three_targets None]
  note t2 = broadcast_isolation [of "''192.168.1.12''" second_unreachable all_reachable
      example_imports three_targets SERVICE_SET_BUZZER_ON None None
      SERVICE_SET_BUZZER_ON None example_imports all_reachable three_targets None]
  from t1 led have r1: "async_service_handler example_imports second_unreachable three_targets
      SERVICE_SET_BUZZER_ON None None =
        (Return (),
         map (\<lambda>(host, entity).
                if targeted None entity \<and>
                   fst (SERVICE_TO_METHOD SERVICE_SET_BUZZER_ON) \<in> set (methods_of (cls entity))
                then (host, method_then_poll example_imports
                        (fst (SERVICE_TO_METHOD SERVICE_SET_BUZZER_ON)) None
                        (second_unreachable host) entity)
                else (host, entity)) three_targets)" by blast
  from t2 led have r2: "async_service_handler example_imports all_reachable three_targets
      SERVICE_SET_BUZZER_ON None None =
        (Return (),
         map (\<lambda>(host, entity).
                if targeted None entity \<and>
                   fst (SERVICE_TO_METHOD SERVICE_SET_BUZZER_ON) \<in> set (methods_of (cls entity))
                then (host, method_then_poll example_imports
                        (fst (SERVICE_TO_METHOD SERVICE_SET_BUZZER_ON)) None
                        (all_reachable host) entity)
                else (host, entity)) three_targets)" by blast
  show ?thesis
    unfolding r1 r2
    by (simp add: three_targets_def second_unreachable_def all_reachable_def targeted_def
        class_method_defs method_then_poll_def call_method_def async_set_buzzer_on_def
        command_def try_command_def async_update_ha_state_def async_update_calls
        async_update_available ok_vendor_def unreachable_vendor_def
        fresh_air_fields purifier_fields humidifier_miot_fields
        FEATURE_FLAGS_defs FEATURE_defs Let_def)
qed

end
